theory Spec2Isabelle
  imports Complex_Main
begin

section \<open>Python values used by the backend\<close>

text \<open>
  The backend (\<^verbatim>\<open>main.py\<close>) and the dashboard (\<^verbatim>\<open>app.py\<close>) are Python. Python's
  \<^verbatim>\<open>int\<close> is unbounded and is modelled by \<^typ>\<open>int\<close>. A \<^verbatim>\<open>dict\<close> keeps its
  insertion order and is modelled by the list of its entries. A raised exception is the
  left summand of a sum type.
\<close>

datatype error =
    KeyError string
  | OverflowError
  | ValueError
  | TypeError
  | ZeroDivisionError
  | HTTPException nat string

type_synonym 'a dict = "(string \<times> 'a) list"

definition getitem :: "'a dict \<Rightarrow> string \<Rightarrow> error + 'a" where
  "getitem d k = (case map_of d k of None \<Rightarrow> Inl (KeyError k) | Some v \<Rightarrow> Inr v)"

definition then_do :: "'e + 'a \<Rightarrow> ('a \<Rightarrow> 'e + 'b) \<Rightarrow> 'e + 'b" where
  "then_do r f = (case r of Inl e \<Rightarrow> Inl e | Inr v \<Rightarrow> f v)"

subsection \<open>Double-precision floating point\<close>

text \<open>
  \<^verbatim>\<open>price_increase_percentage\<close> is a Python \<^verbatim>\<open>float\<close>, an IEEE-754 binary64
  number, and lines 95--98 of \<^verbatim>\<open>main.py\<close> compute in that arithmetic. A float is
  modelled by the rational it denotes, or one of the three special values; every
  operation computes the exact rational result and rounds it to the nearest double,
  ties to even (53 significant bits, exponents from \<open>-1022\<close> to \<open>1023\<close>, gradual
  underflow). The sign of a zero is not modelled: the code only reads floats through
  \<^verbatim>\<open>int()\<close>, where both zeros give \<open>0\<close>.
\<close>

datatype pyfloat = Finite rat | PosInf | NegInf | NaN

fun bit_length :: "nat \<Rightarrow> nat" where
  "bit_length n = (if n = 0 then 0 else Suc (bit_length (n div 2)))"

definition pow2 :: "int \<Rightarrow> rat" where
  "pow2 e = (if 0 \<le> e then 2 ^ nat e else 1 / 2 ^ nat (- e))"

text \<open>The binary exponent of a non-zero rational: \<open>2^e \<le> |x| < 2^(e+1)\<close>.\<close>

definition exponent_of :: "rat \<Rightarrow> int" where
  "exponent_of x =
     (let a = \<bar>x\<bar> in
      if 1 \<le> a then int (bit_length (nat \<lfloor>a\<rfloor>)) - 1
      else (let k = int (bit_length (nat \<lfloor>1 / a\<rfloor>)) in
            if pow2 (1 - k) \<le> a then 1 - k else - k))"

definition round_half_even :: "rat \<Rightarrow> int" where
  "round_half_even r =
     (let f = \<lfloor>r\<rfloor>; d = r - of_int f in
      if d < 1 / 2 then f
      else if 1 / 2 < d then f + 1
      else if even f then f else f + 1)"

text \<open>The spacing of the doubles around \<open>x\<close>; below \<open>2^-1022\<close> it stays \<open>2^-1074\<close>.\<close>

definition quantum :: "rat \<Rightarrow> rat" where
  "quantum x = pow2 (max (exponent_of x) (- 1022) - 52)"

definition round_to_double :: "rat \<Rightarrow> pyfloat" where
  "round_to_double x =
     (if x = 0 then Finite 0
      else (let y = of_int (round_half_even (x / quantum x)) * quantum x in
            if pow2 1024 \<le> \<bar>y\<bar> then (if 0 < x then PosInf else NegInf)
            else Finite y))"

text \<open>
  \<^verbatim>\<open>int\<close> to \<^verbatim>\<open>float\<close>, as Python converts the integer operand of a mixed
  operation: correctly rounded, and \<^verbatim>\<open>OverflowError\<close> when the integer is too large.
\<close>

definition float_of_int :: "int \<Rightarrow> error + pyfloat" where
  "float_of_int n =
     (case round_to_double (of_int n) of
        Finite y \<Rightarrow> Inr (Finite y)
      | _ \<Rightarrow> Inl OverflowError)"

fun float_add :: "pyfloat \<Rightarrow> pyfloat \<Rightarrow> pyfloat" where
  "float_add NaN _ = NaN"
| "float_add _ NaN = NaN"
| "float_add PosInf NegInf = NaN"
| "float_add NegInf PosInf = NaN"
| "float_add PosInf _ = PosInf"
| "float_add _ PosInf = PosInf"
| "float_add NegInf _ = NegInf"
| "float_add _ NegInf = NegInf"
| "float_add (Finite a) (Finite b) = round_to_double (a + b)"

definition signed_inf :: "bool \<Rightarrow> pyfloat" where
  "signed_inf positive = (if positive then PosInf else NegInf)"

fun float_mul :: "pyfloat \<Rightarrow> pyfloat \<Rightarrow> pyfloat" where
  "float_mul NaN _ = NaN"
| "float_mul _ NaN = NaN"
| "float_mul (Finite a) (Finite b) = round_to_double (a * b)"
| "float_mul (Finite a) PosInf = (if a = 0 then NaN else signed_inf (0 < a))"
| "float_mul (Finite a) NegInf = (if a = 0 then NaN else signed_inf (a < 0))"
| "float_mul PosInf (Finite b) = (if b = 0 then NaN else signed_inf (0 < b))"
| "float_mul NegInf (Finite b) = (if b = 0 then NaN else signed_inf (b < 0))"
| "float_mul PosInf PosInf = PosInf"
| "float_mul PosInf NegInf = NegInf"
| "float_mul NegInf PosInf = NegInf"
| "float_mul NegInf NegInf = PosInf"

text \<open>Python's \<^verbatim>\<open>/\<close> on floats raises \<^verbatim>\<open>ZeroDivisionError\<close> on a zero divisor.\<close>

fun float_truediv :: "pyfloat \<Rightarrow> pyfloat \<Rightarrow> error + pyfloat" where
  "float_truediv x (Finite b) =
     (if b = 0 then Inl ZeroDivisionError
      else (case x of
              Finite a \<Rightarrow> Inr (round_to_double (a / b))
            | PosInf \<Rightarrow> Inr (signed_inf (0 < b))
            | NegInf \<Rightarrow> Inr (signed_inf (b < 0))
            | NaN \<Rightarrow> Inr NaN))"
| "float_truediv NaN _ = Inr NaN"
| "float_truediv _ NaN = Inr NaN"
| "float_truediv (Finite a) _ = Inr (Finite 0)"
| "float_truediv _ _ = Inr NaN"

text \<open>
  \<^verbatim>\<open>int(x)\<close> on a float truncates toward zero; it raises \<^verbatim>\<open>OverflowError\<close> on an
  infinity and \<^verbatim>\<open>ValueError\<close> on a NaN.
\<close>

definition trunc :: "rat \<Rightarrow> int" where
  "trunc a = (if 0 \<le> a then \<lfloor>a\<rfloor> else \<lceil>a\<rceil>)"

fun int_of_float :: "pyfloat \<Rightarrow> error + int" where
  "int_of_float (Finite a) = Inr (trunc a)"
| "int_of_float NaN = Inl ValueError"
| "int_of_float _ = Inl OverflowError"


section \<open>The backend: \<^verbatim>\<open>main.py\<close>\<close>

subsection \<open>Python values\<close>

text \<open>
  The values that \<^verbatim>\<open>json.loads\<close> and \<^verbatim>\<open>response.json()\<close> build, and the
  dictionaries the backend makes of them. A \<open>JObject\<close> lists the entries of a \<^verbatim>\<open>dict\<close> in
  insertion order, each key once; parsed JSON has string keys, and
  \<^verbatim>\<open>USAGE_STATS.update\<close> can add a key that is any hashable value.
\<close>

datatype json =
    JNull
  | JBool bool
  | JInt int
  | JFloat pyfloat
  | JStr string
  | JArray "json list"
  | JObject "(json \<times> json) list"

type_synonym pydict = "(json \<times> json) list"

text \<open>
  Two keys are the same key when Python finds them equal: numbers (\<^verbatim>\<open>bool\<close>,
  \<^verbatim>\<open>int\<close>, \<^verbatim>\<open>float\<close>) by their value, anything else only with its own kind. A NaN
  from the JSON parser is one object, which a dictionary finds again by identity.
\<close>

fun number_of :: "json \<Rightarrow> pyfloat option" where
  "number_of (JBool b) = Some (Finite (if b then 1 else 0))"
| "number_of (JInt n) = Some (Finite (of_int n))"
| "number_of (JFloat x) = Some x"
| "number_of _ = None"

definition key_eq :: "json \<Rightarrow> json \<Rightarrow> bool" where
  "key_eq a b =
     (case number_of a of
        Some x \<Rightarrow> number_of b = Some x
      | None \<Rightarrow> number_of b = None \<and> a = b)"

fun hashable :: "json \<Rightarrow> bool" where
  "hashable (JArray xs) = False"
| "hashable (JObject d) = False"
| "hashable _ = True"

fun dict_get :: "pydict \<Rightarrow> json \<Rightarrow> json option" where
  "dict_get [] k = None"
| "dict_get ((k', v) # d) k = (if key_eq k' k then Some v else dict_get d k)"

text \<open>\<^verbatim>\<open>d[k] = v\<close>: an entry with that key keeps its place and its key, a new one goes last.\<close>

fun dict_set :: "pydict \<Rightarrow> json \<Rightarrow> json \<Rightarrow> pydict" where
  "dict_set [] k v = [(k, v)]"
| "dict_set ((k', v') # d) k v =
     (if key_eq k' k then (k', v) # d else (k', v') # dict_set d k v)"

text \<open>
  \<^verbatim>\<open>d.update(other)\<close>. A dictionary is stored entry by entry. A list is read as a
  sequence of pairs: an element must itself be a sequence (a list, a string, or a
  dictionary, which gives its keys) of length 2, else \<^verbatim>\<open>TypeError\<close> or
  \<^verbatim>\<open>ValueError\<close>, and its first component must be hashable; the elements before a
  faulty one have been stored. A string is a sequence of one-character strings, so only
  the empty one passes. Any other value is not iterable. The result is the exception, if
  any, and the dictionary as it was left.
\<close>

fun update_pair :: "json \<Rightarrow> error + json \<times> json" where
  "update_pair (JArray xs) = (case xs of [k, v] \<Rightarrow> Inr (k, v) | _ \<Rightarrow> Inl ValueError)"
| "update_pair (JStr s) =
     (case s of [c, c'] \<Rightarrow> Inr (JStr [c], JStr [c']) | _ \<Rightarrow> Inl ValueError)"
| "update_pair (JObject d) =
     (case map fst d of [k, k'] \<Rightarrow> Inr (k, k') | _ \<Rightarrow> Inl ValueError)"
| "update_pair _ = Inl TypeError"

fun update_from_pairs :: "pydict \<Rightarrow> json list \<Rightarrow> error option \<times> pydict" where
  "update_from_pairs d [] = (None, d)"
| "update_from_pairs d (x # xs) =
     (case update_pair x of
        Inl e \<Rightarrow> (Some e, d)
      | Inr (k, v) \<Rightarrow>
          if hashable k then update_from_pairs (dict_set d k v) xs else (Some TypeError, d))"

fun dict_update :: "pydict \<Rightarrow> json \<Rightarrow> error option \<times> pydict" where
  "dict_update d (JObject other) = (None, fold (\<lambda>(k, v) d'. dict_set d' k v) other d)"
| "dict_update d (JArray xs) = update_from_pairs d xs"
| "dict_update d (JStr s) = (if s = [] then (None, d) else (Some ValueError, d))"
| "dict_update d _ = (Some TypeError, d)"

text \<open>\<^verbatim>\<open>v + 1\<close>, as \<^verbatim>\<open>+=\<close> computes it: a \<^verbatim>\<open>bool\<close> counts as 0 or 1, a \<^verbatim>\<open>float\<close>
  adds \<open>1.0\<close>; a string, a list, a dictionary or \<^verbatim>\<open>None\<close> raises \<^verbatim>\<open>TypeError\<close>.\<close>

fun plus_one :: "json \<Rightarrow> error + json" where
  "plus_one (JInt n) = Inr (JInt (n + 1))"
| "plus_one (JBool b) = Inr (JInt ((if b then 1 else 0) + 1))"
| "plus_one (JFloat x) = Inr (JFloat (float_add x (Finite 1)))"
| "plus_one _ = Inl TypeError"

subsection \<open>Configuration and the outside world\<close>

text \<open>
  \<^verbatim>\<open>GEMINI_API_KEY\<close> and \<^verbatim>\<open>FLEXPRICE_API_KEY\<close> come from \<^verbatim>\<open>os.getenv\<close>: absent
  or a string, and \<^verbatim>\<open>if KEY:\<close> holds for a non-empty string. The three things the
  backend asks of the outside are parameters: what \<^verbatim>\<open>GET /usage/{customer}\<close> of the
  metering service gives (a \<^verbatim>\<open>RequestException\<close> from the request, the status check
  or the decoding of the body, which the code catches, or whatever value the body
  decodes to), what the language model answers to a prompt (the text of the exception
  it raises, or the response text), and what \<^verbatim>\<open>json.loads\<close> makes of a text (the
  text of its exception, or a value). The \<^verbatim>\<open>POST /meter\<close> call has no effect on the
  backend: its answer is dropped and its failure is caught and printed.
\<close>

datatype usage_reply = RequestException | Usage_data json

record env =
  GEMINI_API_KEY :: "string option"
  FLEXPRICE_API_KEY :: "string option"
  usage_response :: usage_reply
  generate_content :: "string \<Rightarrow> string + string"
  json_loads :: "string \<Rightarrow> string + json"

definition configured :: "string option \<Rightarrow> bool" where
  "configured key = (case key of None \<Rightarrow> False | Some k \<Rightarrow> k \<noteq> [])"

subsection \<open>Usage counter\<close>

definition USAGE_STATS :: pydict where
  "USAGE_STATS =
     [(JStr ''scenarios_simulated'', JInt 0), (JStr ''reports_exported'', JInt 0),
      (JStr ''ai_price_calculations'', JInt 0)]"

text \<open>
  The functions below take the current \<^verbatim>\<open>USAGE_STATS\<close> and return it as they leave it,
  next to their result or their exception. \<^verbatim>\<open>get_usage_stats\<close> returns the service's
  data, not the merged dictionary, when the service answers; an exception of
  \<^verbatim>\<open>USAGE_STATS.update(data)\<close> is not a \<^verbatim>\<open>RequestException\<close> and escapes.
\<close>

definition get_usage_stats :: "env \<Rightarrow> pydict \<Rightarrow> (error + json) \<times> pydict" where
  "get_usage_stats ev stats =
     (if configured (FLEXPRICE_API_KEY ev) then
        (case usage_response ev of
           Usage_data data \<Rightarrow>
             (case dict_update stats data of
                (None, stats') \<Rightarrow> (Inr data, stats')
              | (Some e, stats') \<Rightarrow> (Inl e, stats'))
         | RequestException \<Rightarrow> (Inr (JObject stats), stats))
      else (Inr (JObject stats), stats))"

text \<open>\<^verbatim>\<open>USAGE_STATS[key] += 1\<close>\<close>

definition increment :: "pydict \<Rightarrow> string \<Rightarrow> error + pydict" where
  "increment stats key =
     (case dict_get stats (JStr key) of
        None \<Rightarrow> Inl (KeyError key)
      | Some v \<Rightarrow> then_do (plus_one v) (\<lambda>v'. Inr (dict_set stats (JStr key) v')))"

definition log_flexprice_event :: "env \<Rightarrow> string \<Rightarrow> pydict \<Rightarrow> (error + json) \<times> pydict" where
  "log_flexprice_event ev event_name stats =
     (case
        (if event_name = ''scenario_simulated'' then increment stats ''scenarios_simulated''
         else if event_name = ''report_exported'' then increment stats ''reports_exported''
         else if event_name = ''ai_price_calculation'' then increment stats ''ai_price_calculations''
         else Inr stats)
      of
        Inl e \<Rightarrow> (Inl e, stats)
      | Inr stats' \<Rightarrow> get_usage_stats ev stats')"

text \<open>The state after \<open>n\<close> successive calls for one event name, none of which raised.\<close>

fun log_flexprice_events :: "env \<Rightarrow> string \<Rightarrow> nat \<Rightarrow> pydict \<Rightarrow> error + pydict" where
  "log_flexprice_events ev event_name 0 stats = Inr stats"
| "log_flexprice_events ev event_name (Suc n) stats =
     (case log_flexprice_event ev event_name stats of
        (Inl e, stats') \<Rightarrow> Inl e
      | (Inr snapshot, stats') \<Rightarrow> log_flexprice_events ev event_name n stats')"

subsection \<open>Scenario engine: \<^verbatim>\<open>POST /simulate\<close>\<close>

record Metrics =
  runway :: int
  monthly_revenue :: int
  monthly_cogs :: int
  monthly_opex :: int

record SimulatePayload =
  hires :: int
  marketing_spend_increase :: int
  price_increase_percentage :: pyfloat
  baseline_metrics :: Metrics

record simulate_response =
  simulated_metrics :: "int dict"
  usage_stats :: json

text \<open>
  Lines 94--107 and 111--115 of \<^verbatim>\<open>simulate_scenario\<close>: the arithmetic, up to the
  dictionary \<^verbatim>\<open>simulated_metrics\<close>. An \<^verbatim>\<open>int\<close> meeting a \<^verbatim>\<open>float\<close> in \<^verbatim>\<open>*\<close>,
  \<^verbatim>\<open>+\<close> or \<^verbatim>\<open>/\<close> is converted first, which can raise.
\<close>

definition compute_simulated_metrics :: "SimulatePayload \<Rightarrow> error + int dict" where
  "compute_simulated_metrics payload =
     (let base = baseline_metrics payload in
      then_do (float_truediv (price_increase_percentage payload) (Finite 100)) (\<lambda>fraction.
      then_do (float_of_int 1) (\<lambda>one.
      then_do (float_of_int (monthly_revenue base)) (\<lambda>revenue.
      then_do (int_of_float (float_mul revenue (float_add one fraction))) (\<lambda>new_monthly_revenue.
      then_do (float_of_int 75000) (\<lambda>annual.
      then_do (float_truediv annual (Finite 12)) (\<lambda>per_hire_monthly.
      then_do (float_of_int (hires payload)) (\<lambda>hires_float.
      let hiring_cost_monthly = float_mul hires_float per_hire_monthly in
      then_do (float_of_int (monthly_opex base)) (\<lambda>opex.
      then_do (float_of_int (marketing_spend_increase payload)) (\<lambda>marketing.
      then_do (int_of_float (float_add (float_add opex hiring_cost_monthly) marketing))
        (\<lambda>new_monthly_opex.
      let new_gross_profit = new_monthly_revenue - monthly_cogs base;
          new_net_profit = new_gross_profit - new_monthly_opex;
          baseline_net_profit = monthly_revenue base - monthly_cogs base - monthly_opex base;
          base_net_burn = (if baseline_net_profit < 0 then - baseline_net_profit else 0);
          starting_cash =
            (if base_net_burn > 0 then runway base * base_net_burn
             else monthly_revenue base * 12);
          net_cash_burn = (if new_net_profit < 0 then - new_net_profit else 0);
          new_runway =
            (if net_cash_burn > 0 then max 0 (starting_cash div net_cash_burn) else 48)
      in Inr [(''runway'', new_runway), (''monthly_burn'', new_monthly_opex),
              (''monthly_opex'', new_monthly_opex), (''monthly_profit'', new_net_profit),
              (''monthly_revenue'', new_monthly_revenue),
              (''monthly_cogs'', monthly_cogs base)])))))))))))"

text \<open>
  The endpoint: the arithmetic, then line 109 logs the event, then the response. An
  exception of the arithmetic leaves \<^verbatim>\<open>USAGE_STATS\<close> as it was, since the event is
  logged after it. The result is the dictionary the function returns, before the
  framework renders it.
\<close>

definition simulate_scenario ::
  "env \<Rightarrow> SimulatePayload \<Rightarrow> pydict \<Rightarrow> (error + simulate_response) \<times> pydict" where
  "simulate_scenario ev payload stats =
     (case compute_simulated_metrics payload of
        Inl e \<Rightarrow> (Inl e, stats)
      | Inr metrics \<Rightarrow>
          (case log_flexprice_event ev ''scenario_simulated'' stats of
             (Inl e, stats') \<Rightarrow> (Inl e, stats')
           | (Inr updated_usage_stats, stats') \<Rightarrow>
               (Inr \<lparr>simulated_metrics = metrics, usage_stats = updated_usage_stats\<rparr>,
                stats')))"


subsection \<open>Pricing assistant: \<^verbatim>\<open>POST /flexprice/calculate\<close>\<close>

text \<open>
  Python strings are modelled by \<^typ>\<open>string\<close>, a character being a code point below
  256. \<^verbatim>\<open>str.strip()\<close> removes white space at both ends, \<^verbatim>\<open>str.replace\<close> replaces
  the occurrences of a text from left to right, without overlap.
\<close>

definition isspace :: "char \<Rightarrow> bool" where
  "isspace c = (of_char c \<in> {9, 10, 11, 12, 13, 28, 29, 30, 31, 32, 133, 160 :: nat})"

definition strip :: "string \<Rightarrow> string" where
  "strip s = rev (dropWhile isspace (rev (dropWhile isspace s)))"

function replace :: "string \<Rightarrow> string \<Rightarrow> string \<Rightarrow> string" where
  "replace s old new =
     (if s = [] then (if old = [] then new else [])
      else if old = [] then new @ hd s # replace (tl s) old new
      else if take (length old) s = old then new @ replace (drop (length old) s) old new
      else hd s # replace (tl s) old new)"
  by pat_completeness auto
termination
  by (relation "measure (\<lambda>(s, old, new). length s)") auto

text \<open>
  \<^verbatim>\<open>result_json["usage_stats"] = ...\<close> succeeds on a dictionary; on any other JSON
  value Python raises \<^verbatim>\<open>TypeError\<close>, whose text is returned on the left.
\<close>

definition no_item_assignment :: "string \<Rightarrow> string" where
  "no_item_assignment type_name =
     [CHR 0x27] @ type_name @ [CHR 0x27] @ '' object does not support item assignment''"

fun setitem :: "json \<Rightarrow> string \<Rightarrow> json \<Rightarrow> string + json" where
  "setitem (JObject d) k v = Inr (JObject (dict_set d (JStr k) v))"
| "setitem (JArray xs) k v = Inl ''list indices must be integers or slices, not str''"
| "setitem JNull k v = Inl (no_item_assignment ''NoneType'')"
| "setitem (JBool b) k v = Inl (no_item_assignment ''bool'')"
| "setitem (JInt n) k v = Inl (no_item_assignment ''int'')"
| "setitem (JFloat x) k v = Inl (no_item_assignment ''float'')"
| "setitem (JStr t) k v = Inl (no_item_assignment ''str'')"

text \<open>
  \<^verbatim>\<open>JSONResponse(content=...)\<close> renders its content at once, with
  \<^verbatim>\<open>allow_nan=False\<close>: an infinity or a NaN anywhere in it, as a value or as a key,
  raises \<^verbatim>\<open>ValueError\<close>.
\<close>

fun json_compliant :: "json \<Rightarrow> bool" where
  "json_compliant (JFloat x) = (case x of Finite a \<Rightarrow> True | _ \<Rightarrow> False)"
| "json_compliant (JArray xs) = list_all json_compliant xs"
| "json_compliant (JObject d) =
     (list_all json_compliant (map fst d) \<and> list_all json_compliant (map snd d))"
| "json_compliant _ = True"

definition JSONResponse :: "json \<Rightarrow> string + json" where
  "JSONResponse content =
     (if json_compliant content then Inr content
      else Inl ''Out of range float values are not JSON compliant'')"

definition prompt_for :: "string \<Rightarrow> string" where
  "prompt_for product_description =
     ''Respond ONLY with a valid JSON object with keys '' @ [CHR 0x22] @ ''optimal_price''
       @ [CHR 0x22] @ '' (number) and '' @ [CHR 0x22] @ ''reasoning'' @ [CHR 0x22]
       @ '' (string). Product: '' @ [CHR 0x22] @ product_description @ [CHR 0x22]"

definition code_fence :: string where
  "code_fence = [CHR 0x60, CHR 0x60, CHR 0x60]"

definition clean_response :: "string \<Rightarrow> string" where
  "clean_response text =
     strip (replace (replace (strip text) (code_fence @ ''json'') []) code_fence [])"

text \<open>
  The endpoint. The event is logged first (line 132), outside \<^verbatim>\<open>try\<close>. With a key,
  everything from the call of the model to the response is inside \<^verbatim>\<open>try\<close>, and any
  exception there becomes \<^verbatim>\<open>HTTPException(status_code=500)\<close> with the exception's
  text in its detail.
\<close>

definition calculate_price :: "env \<Rightarrow> string \<Rightarrow> pydict \<Rightarrow> (error + json) \<times> pydict" where
  "calculate_price ev product_description stats =
     (case log_flexprice_event ev ''ai_price_calculation'' stats of
        (Inl e, stats') \<Rightarrow> (Inl e, stats')
      | (Inr updated_usage_stats, stats') \<Rightarrow>
          if configured (GEMINI_API_KEY ev) then
            (case
               then_do (generate_content ev (prompt_for product_description)) (\<lambda>text.
               then_do (json_loads ev (clean_response text)) (\<lambda>result_json.
               then_do (setitem result_json ''usage_stats'' updated_usage_stats)
                 JSONResponse))
             of
               Inl e \<Rightarrow> (Inl (HTTPException 500 (''Error with Gemini API: '' @ e)), stats')
             | Inr response \<Rightarrow> (Inr response, stats'))
          else
            (case JSONResponse (JObject
                    [(JStr ''optimal_price'', JInt 999),
                     (JStr ''reasoning'', JStr ''GEMINI_API_KEY not configured.''),
                     (JStr ''usage_stats'', updated_usage_stats)]) of
               Inl e \<Rightarrow> (Inl ValueError, stats')
             | Inr response \<Rightarrow> (Inr response, stats')))"

section \<open>The dashboard: \<^verbatim>\<open>app.py\<close>\<close>

text \<open>
  \<^verbatim>\<open>build_forecast_df\<close> takes the metrics as a dictionary. \<^verbatim>\<open>metrics["runway"]\<close> is
  read only when the net profit is negative; \<^verbatim>\<open>metrics.get("runway", 36)\<close> never
  raises. The data frame is the list of its rows, (Month, Cash Balance).
\<close>

definition build_forecast_df :: "int dict \<Rightarrow> error + (int \<times> int) list" where
  "build_forecast_df metrics =
     then_do (getitem metrics ''monthly_revenue'') (\<lambda>revenue.
     then_do (getitem metrics ''monthly_cogs'') (\<lambda>cogs.
     then_do (getitem metrics ''monthly_opex'') (\<lambda>opex.
     let net_profit = revenue - cogs - opex;
         base_net_burn = (if net_profit < 0 then - net_profit else 0) in
     then_do
       (if base_net_burn > 0
        then then_do (getitem metrics ''runway'') (\<lambda>months. Inr (months * base_net_burn))
        else then_do (getitem metrics ''monthly_revenue'') (\<lambda>revenue'. Inr (revenue' * 12)))
       (\<lambda>starting_cash.
     let runway_duration = (case map_of metrics ''runway'' of None \<Rightarrow> 36 | Some months \<Rightarrow> months);
         runway_duration = (if runway_duration \<le> 0 then 1 else runway_duration);
         cash_balance =
           map (\<lambda>i. max 0 (starting_cash + net_profit * i)) [0..runway_duration - 1]
     in Inr (zip [1..runway_duration] cash_balance)))))"


section \<open>The formulas of the specification\<close>

text \<open>
  The revenue and opex formulas of the scenario engine, read in double precision: every
  integer is converted, and every \<open>/\<close>, \<open>+\<close> and \<open>*\<close> is rounded.
\<close>

definition double_revenue :: "int \<Rightarrow> rat \<Rightarrow> pyfloat" where
  "double_revenue revenue percentage =
     float_mul (round_to_double (of_int revenue))
       (float_add (Finite 1) (round_to_double (percentage / 100)))"

definition double_opex :: "int \<Rightarrow> int \<Rightarrow> int \<Rightarrow> pyfloat" where
  "double_opex opex hired marketing =
     float_add
       (float_add (round_to_double (of_int opex))
          (float_mul (round_to_double (of_int hired)) (round_to_double (75000 / 12))))
       (round_to_double (of_int marketing))"

text \<open>The starting cash of a baseline, as the specification words it.\<close>

definition baseline_starting_cash :: "Metrics \<Rightarrow> int" where
  "baseline_starting_cash base =
     (let baseline_net_profit = monthly_revenue base - monthly_cogs base - monthly_opex base in
      if baseline_net_profit < 0 then runway base * (- baseline_net_profit)
      else monthly_revenue base * 12)"

text \<open>
  The forecast horizon as the specification words it: the runway if present and
  positive, else 36; then clamped to 1 if not positive.
\<close>

definition specified_horizon :: "int dict \<Rightarrow> int" where
  "specified_horizon metrics =
     (let horizon = (case map_of metrics ''runway'' of
                       None \<Rightarrow> 36
                     | Some months \<Rightarrow> if months > 0 then months else 36)
      in if horizon \<le> 0 then 1 else horizon)"

text \<open>
  Valid JSON, by the grammar of RFC 8259: a recogniser that returns the text left after
  one value. A nested value costs one unit of \<open>fuel\<close>, and every unit spent reads a
  character, so the length of the text is fuel enough.
\<close>

definition json_ws :: "char \<Rightarrow> bool" where
  "json_ws c = (of_char c \<in> {32, 9, 10, 13 :: nat})"

definition skip_ws :: "string \<Rightarrow> string" where
  "skip_ws = dropWhile json_ws"

definition is_digit :: "char \<Rightarrow> bool" where
  "is_digit c = (48 \<le> (of_char c :: nat) \<and> (of_char c :: nat) \<le> 57)"

definition is_hex :: "char \<Rightarrow> bool" where
  "is_hex c =
     (is_digit c \<or> (65 \<le> (of_char c :: nat) \<and> (of_char c :: nat) \<le> 70)
      \<or> (97 \<le> (of_char c :: nat) \<and> (of_char c :: nat) \<le> 102))"

text \<open>After the opening quotation mark: the text after the closing one.\<close>

fun json_string_rest :: "string \<Rightarrow> string option" where
  "json_string_rest [] = None"
| "json_string_rest (c # cs) =
     (if c = CHR 0x22 then Some cs
      else if c = CHR 0x5C then
        (case cs of
           [] \<Rightarrow> None
         | e # r \<Rightarrow>
             if e \<in> set [CHR 0x22, CHR 0x5C, CHR ''/'', CHR ''b'', CHR ''f'', CHR ''n'', CHR ''r'',
                          CHR ''t'']
             then json_string_rest r
             else if e = CHR ''u'' \<and> 4 \<le> length r \<and> list_all is_hex (take 4 r)
             then json_string_rest (drop 4 r)
             else None)
      else if (of_char c :: nat) < 32 then None
      else json_string_rest cs)"

definition json_digits :: "string \<Rightarrow> string option" where
  "json_digits s =
     (case s of
        [] \<Rightarrow> None
      | d # r \<Rightarrow> if is_digit d then Some (dropWhile is_digit r) else None)"

definition json_number :: "string \<Rightarrow> string option" where
  "json_number s =
     (let unsigned = (case s of [] \<Rightarrow> s | c # r \<Rightarrow> if c = CHR ''-'' then r else s) in
      case unsigned of
        [] \<Rightarrow> None
      | d # r \<Rightarrow>
          if \<not> is_digit d then None
          else
            (let after_int = (if d = CHR ''0'' then r else dropWhile is_digit r);
                 after_frac =
                   (case after_int of
                      [] \<Rightarrow> Some after_int
                    | c # r' \<Rightarrow> if c = CHR ''.'' then json_digits r' else Some after_int)
             in case after_frac of
                  None \<Rightarrow> None
                | Some [] \<Rightarrow> Some []
                | Some (c # r') \<Rightarrow>
                    if c = CHR ''e'' \<or> c = CHR ''E'' then
                      (case r' of
                         [] \<Rightarrow> None
                       | sign # r'' \<Rightarrow>
                           if sign = CHR ''+'' \<or> sign = CHR ''-'' then json_digits r''
                           else json_digits r')
                    else Some (c # r')))"

fun json_value :: "nat \<Rightarrow> string \<Rightarrow> string option"
  and json_elements :: "nat \<Rightarrow> string \<Rightarrow> string option"
  and json_members :: "nat \<Rightarrow> string \<Rightarrow> string option" where
  "json_value 0 s = None"
| "json_value (Suc fuel) s =
     (case s of
        [] \<Rightarrow> None
      | c # r \<Rightarrow>
          if c = CHR ''{'' then
            (case skip_ws r of
               [] \<Rightarrow> None
             | c' # r' \<Rightarrow> if c' = CHR ''}'' then Some r' else json_members fuel (c' # r'))
          else if c = CHR ''['' then
            (case skip_ws r of
               [] \<Rightarrow> None
             | c' # r' \<Rightarrow> if c' = CHR '']'' then Some r' else json_elements fuel (c' # r'))
          else if c = CHR 0x22 then json_string_rest r
          else if take 4 s = ''true'' then Some (drop 4 s)
          else if take 5 s = ''false'' then Some (drop 5 s)
          else if take 4 s = ''null'' then Some (drop 4 s)
          else json_number s)"
| "json_elements 0 s = None"
| "json_elements (Suc fuel) s =
     (case json_value fuel s of
        None \<Rightarrow> None
      | Some r \<Rightarrow>
          (case skip_ws r of
             [] \<Rightarrow> None
           | c # r' \<Rightarrow>
               if c = CHR '','' then json_elements fuel (skip_ws r')
               else if c = CHR '']'' then Some r'
               else None))"
| "json_members 0 s = None"
| "json_members (Suc fuel) s =
     (case s of
        [] \<Rightarrow> None
      | c # r \<Rightarrow>
          if c \<noteq> CHR 0x22 then None
          else
            (case json_string_rest r of
               None \<Rightarrow> None
             | Some r1 \<Rightarrow>
                 (case skip_ws r1 of
                    [] \<Rightarrow> None
                  | c1 # r2 \<Rightarrow>
                      if c1 \<noteq> CHR '':'' then None
                      else
                        (case json_value fuel (skip_ws r2) of
                           None \<Rightarrow> None
                         | Some r3 \<Rightarrow>
                             (case skip_ws r3 of
                                [] \<Rightarrow> None
                              | c3 # r4 \<Rightarrow>
                                  if c3 = CHR '','' then json_members fuel (skip_ws r4)
                                  else if c3 = CHR ''}'' then Some r4
                                  else None)))))"

definition valid_json :: "string \<Rightarrow> bool" where
  "valid_json text =
     (case json_value (Suc (length text)) (skip_ws text) of
        None \<Rightarrow> False
      | Some rest \<Rightarrow> skip_ws rest = [])"

section \<open>Example configurations\<close>

text \<open>A backend with no key at all: no metering service, no language model.\<close>

definition local_env :: env where
  "local_env = \<lparr>GEMINI_API_KEY = None, FLEXPRICE_API_KEY = None, usage_response = RequestException,
     generate_content = (\<lambda>prompt. Inl ''unreachable''), json_loads = (\<lambda>text. Inl ''unused'')\<rparr>"

text \<open>Metrics for the forecast: a runway of 0, and a loss of 90 a month with a runway of 3.\<close>

definition zero_runway_metrics :: "int dict" where
  "zero_runway_metrics =
     [(''runway'', 0), (''monthly_revenue'', 220000), (''monthly_cogs'', 40000),
      (''monthly_opex'', 150000)]"

definition burning_metrics :: "int dict" where
  "burning_metrics =
     [(''runway'', 3), (''monthly_revenue'', 100), (''monthly_cogs'', 40),
      (''monthly_opex'', 150)]"

text \<open>
  A backend whose model answers a text that is not JSON, and one behind a metering
  service that reports no price calculation, with a model that is down.
\<close>

definition failing_model_env :: env where
  "failing_model_env = \<lparr>GEMINI_API_KEY = Some ''gemini-key'', FLEXPRICE_API_KEY = None,
     usage_response = RequestException,
     generate_content = (\<lambda>prompt. Inr ''I cannot price this product.''),
     json_loads = (\<lambda>text. Inl ''Expecting value: line 1 column 1 (char 0)'')\<rparr>"

definition metered_env :: env where
  "metered_env = \<lparr>GEMINI_API_KEY = Some ''gemini-key'', FLEXPRICE_API_KEY = Some ''flexprice-key'',
     usage_response = Usage_data (JObject [(JStr ''ai_price_calculations'', JInt 0)]),
     generate_content = (\<lambda>prompt. Inl ''503 model unavailable''),
     json_loads = (\<lambda>text. Inl ''unused'')\<rparr>"

text \<open>
  A backend without a model key behind a metering service whose body is \<^verbatim>\<open>null\<close>.
\<close>

definition null_metering_env :: env where
  "null_metering_env = \<lparr>GEMINI_API_KEY = None, FLEXPRICE_API_KEY = Some ''flexprice-key'',
     usage_response = Usage_data JNull,
     generate_content = (\<lambda>prompt. Inl ''unreachable''), json_loads = (\<lambda>text. Inl ''unused'')\<rparr>"

text \<open>
  A model that answers \<^verbatim>\<open>{"optimal_price": 49, "usage_stats": NaN}\<close>, which
  \<^verbatim>\<open>json.loads\<close> reads as a dictionary with a NaN in it.
\<close>

definition nan_answer :: string where
  "nan_answer =
     ''{'' @ [CHR 0x22] @ ''optimal_price'' @ [CHR 0x22] @ '': 49, '' @ [CHR 0x22]
       @ ''usage_stats'' @ [CHR 0x22] @ '': NaN}''"

definition nan_model_env :: env where
  "nan_model_env = \<lparr>GEMINI_API_KEY = Some ''gemini-key'', FLEXPRICE_API_KEY = None,
     usage_response = RequestException,
     generate_content = (\<lambda>prompt. Inr nan_answer),
     json_loads = (\<lambda>text.
       if text = nan_answer
       then Inr (JObject [(JStr ''optimal_price'', JInt 49), (JStr ''usage_stats'', JFloat NaN)])
       else Inl ''Expecting value: line 1 column 1 (char 0)'')\<rparr>"

text \<open>
  The dictionary that lines 99--115 of \<^verbatim>\<open>simulate_scenario\<close> build from the baseline and
  the two integers of lines 95 and 98.
\<close>

definition simulated_metrics_from :: "Metrics \<Rightarrow> int \<Rightarrow> int \<Rightarrow> int dict" where
  "simulated_metrics_from base new_monthly_revenue new_monthly_opex =
     (let new_net_profit = new_monthly_revenue - monthly_cogs base - new_monthly_opex;
          net_cash_burn = (if new_net_profit < 0 then - new_net_profit else 0);
          new_runway =
            (if net_cash_burn > 0 then max 0 (baseline_starting_cash base div net_cash_burn)
             else 48)
      in [(''runway'', new_runway), (''monthly_burn'', new_monthly_opex),
          (''monthly_opex'', new_monthly_opex), (''monthly_profit'', new_net_profit),
          (''monthly_revenue'', new_monthly_revenue), (''monthly_cogs'', monthly_cogs base)])"

text \<open>
  Payloads on the dashboard's default baseline: the scenario of the specification's
  second test, a price increase of 15 percent alone, and a marketing spend that turns
  the profit into a loss.
\<close>

definition default_baseline :: Metrics where
  "default_baseline =
     \<lparr>runway = 18, monthly_revenue = 220000, monthly_cogs = 40000, monthly_opex = 150000\<rparr>"

definition example_payload :: SimulatePayload where
  "example_payload =
     \<lparr>hires = 2, marketing_spend_increase = 10000, price_increase_percentage = Finite 10,
      baseline_metrics = default_baseline\<rparr>"

definition fifteen_percent_payload :: SimulatePayload where
  "fifteen_percent_payload =
     \<lparr>hires = 0, marketing_spend_increase = 0, price_increase_percentage = Finite 15,
      baseline_metrics = default_baseline\<rparr>"


section \<open>Rounding to double precision\<close>

declare bit_length.simps [simp del]

lemma pow2_powi: "pow2 e = 2 powi e"
  by (simp add: pow2_def power_int_def power_one_over inverse_eq_divide)

lemma pow2_pos: "0 < pow2 e"
  by (simp add: pow2_def)

lemma pow2_add: "pow2 (a + b) = pow2 a * pow2 b"
  by (simp add: pow2_powi power_int_add)

lemma pow2_mono: "a \<le> b \<Longrightarrow> pow2 a \<le> pow2 b"
  by (simp add: pow2_powi power_int_increasing)

lemma pow2_strict_mono: "a < b \<Longrightarrow> pow2 a < pow2 b"
  by (simp add: pow2_powi power_int_strict_increasing)

lemma pow2_nat: "pow2 (int n) = 2 ^ n"
  by (simp add: pow2_def)

lemma bit_length_bounds:
  "0 < n \<Longrightarrow> 2 ^ (bit_length n - 1) \<le> n \<and> n < 2 ^ bit_length n"
proof (induction n rule: bit_length.induct)
  case (1 n)
  show ?case
  proof (cases "n div 2 = 0")
    case True
    with 1(2) have "n = 1" by (simp add: div_eq_0_iff)
    then show ?thesis by (simp add: bit_length.simps [of "Suc 0"] bit_length.simps [of 0])
  next
    case False
    then have pos: "0 < n div 2" by simp
    from 1(1) [OF _ pos] 1(2)
    have ih: "2 ^ (bit_length (n div 2) - 1) \<le> n div 2" "n div 2 < 2 ^ bit_length (n div 2)"
      by auto
    have bl: "bit_length n = Suc (bit_length (n div 2))"
      using 1(2) by (simp add: bit_length.simps [of n])
    have blpos: "0 < bit_length (n div 2)"
      using pos by (simp add: bit_length.simps [of "n div 2"])
    have "2 * 2 ^ (bit_length (n div 2) - 1) \<le> n" using ih(1) by linarith
    moreover have "2 * 2 ^ (bit_length (n div 2) - 1) = (2::nat) ^ bit_length (n div 2)"
      using blpos by (cases "bit_length (n div 2)") auto
    moreover have "n < 2 * 2 ^ bit_length (n div 2)" using ih(2) by linarith
    ultimately show ?thesis by (simp add: bl)
  qed
qed

lemma exponent_unique:
  assumes "pow2 e \<le> a" "a < pow2 (e + 1)" "pow2 e' \<le> a" "a < pow2 (e' + 1)"
  shows "e = e'"
proof (rule ccontr)
  assume "e \<noteq> e'"
  then consider "e + 1 \<le> e'" | "e' + 1 \<le> e" by linarith
  then show False
  proof cases
    case 1
    from pow2_mono [OF 1] assms show False by linarith
  next
    case 2
    from pow2_mono [OF 2] assms show False by linarith
  qed
qed


lemma floor_nat_bounds:
  fixes a :: rat
  assumes "1 \<le> a"
  shows "0 < nat \<lfloor>a\<rfloor>" "of_nat (nat \<lfloor>a\<rfloor>) \<le> a" "a < of_nat (nat \<lfloor>a\<rfloor>) + 1"
proof -
  have f: "1 \<le> \<lfloor>a\<rfloor>" using assms by (simp add: le_floor_iff)
  then show "0 < nat \<lfloor>a\<rfloor>" by simp
  have "(of_nat (nat \<lfloor>a\<rfloor>) :: rat) = of_int \<lfloor>a\<rfloor>" using f by simp
  then show "of_nat (nat \<lfloor>a\<rfloor>) \<le> a" "a < of_nat (nat \<lfloor>a\<rfloor>) + 1"
    using floor_correct [of a] by simp_all
qed

lemma bit_length_rat_bounds:
  fixes a :: rat
  assumes "1 \<le> a"
  shows "2 ^ (bit_length (nat \<lfloor>a\<rfloor>) - 1) \<le> a" "a < 2 ^ bit_length (nat \<lfloor>a\<rfloor>)"
proof -
  let ?n = "nat \<lfloor>a\<rfloor>"
  from floor_nat_bounds [OF assms] have n: "0 < ?n" "of_nat ?n \<le> a" "a < of_nat ?n + 1" .
  have b: "2 ^ (bit_length ?n - 1) \<le> ?n" "?n + 1 \<le> 2 ^ bit_length ?n"
    using bit_length_bounds [OF n(1)] by (simp_all only: Suc_eq_plus1 [symmetric] Suc_le_eq)
  have "(2::rat) ^ (bit_length ?n - 1) = of_nat (2 ^ (bit_length ?n - 1))" by simp
  also have "\<dots> \<le> of_nat ?n" using b(1) by (subst of_nat_le_iff)
  finally show "2 ^ (bit_length ?n - 1) \<le> a" using n(2) by linarith
  have "of_nat ?n + 1 = (of_nat (?n + 1) :: rat)" by simp
  also have "\<dots> \<le> of_nat (2 ^ bit_length ?n)" using b(2) by (subst of_nat_le_iff)
  also have "\<dots> = 2 ^ bit_length ?n" by simp
  finally show "a < 2 ^ bit_length ?n" using n(3) by linarith
qed

lemma bit_length_pos: "0 < n \<Longrightarrow> 0 < bit_length n"
  by (simp add: bit_length.simps [of n])

lemma exponent_of_bounds:
  assumes "x \<noteq> 0"
  shows "pow2 (exponent_of x) \<le> \<bar>x\<bar>" "\<bar>x\<bar> < pow2 (exponent_of x + 1)"
proof -
  let ?a = "\<bar>x\<bar>"
  have apos: "0 < ?a" using assms by simp
  have "pow2 (exponent_of x) \<le> ?a \<and> ?a < pow2 (exponent_of x + 1)"
  proof (cases "1 \<le> ?a")
    case True
    let ?k = "bit_length (nat \<lfloor>?a\<rfloor>)"
    have kpos: "0 < ?k" using floor_nat_bounds(1) [OF True] by (rule bit_length_pos)
    have e: "exponent_of x = int ?k - 1" using True by (simp add: exponent_of_def)
    have e1: "pow2 (int ?k - 1) = 2 ^ (?k - 1)"
    proof -
      have "int ?k - 1 = int (?k - 1)" using kpos by simp
      then show ?thesis by (simp only: pow2_nat)
    qed
    have e2: "pow2 (int ?k - 1 + 1) = 2 ^ ?k"
      by (simp add: pow2_nat)
    from bit_length_rat_bounds [OF True] show ?thesis
      unfolding e e1 e2 by simp
  next
    case False
    let ?y = "1 / ?a"
    have y1: "1 \<le> ?y" using False apos by (simp add: field_simps)
    let ?k = "bit_length (nat \<lfloor>?y\<rfloor>)"
    have kpos: "0 < ?k" using floor_nat_bounds(1) [OF y1] by (rule bit_length_pos)
    from bit_length_rat_bounds [OF y1]
    have b: "2 ^ (?k - 1) \<le> ?y" "?y < 2 ^ ?k" .
    have p1: "pow2 (1 - int ?k) = 1 / 2 ^ (?k - 1)"
    proof -
      have "1 - int ?k = - int (?k - 1)" using kpos by simp
      then show ?thesis by (simp add: pow2_powi power_int_minus_divide del: of_nat_diff)
    qed
    have p0: "pow2 (- int ?k) = 1 / 2 ^ ?k"
      by (simp add: pow2_powi power_int_minus_divide)
    have up: "?a \<le> pow2 (1 - int ?k)"
      unfolding p1 using b(1) apos by (simp add: field_simps)
    have lo: "pow2 (- int ?k) < ?a"
      unfolding p0 using b(2) apos by (simp add: field_simps)
    show ?thesis
    proof (cases "pow2 (1 - int ?k) \<le> ?a")
      case True
      have e: "exponent_of x = 1 - int ?k"
        using False True by (simp add: exponent_of_def Let_def)
      have "pow2 (1 - int ?k) < pow2 (1 - int ?k + 1)" by (rule pow2_strict_mono) simp
      with up True show ?thesis unfolding e by linarith
    next
      case F2: False
      have e: "exponent_of x = - int ?k"
        using False F2 by (simp add: exponent_of_def Let_def)
      have "- int ?k + 1 = 1 - int ?k" by simp
      with lo F2 show ?thesis unfolding e by simp
    qed
  qed
  then show "pow2 (exponent_of x) \<le> \<bar>x\<bar>" "\<bar>x\<bar> < pow2 (exponent_of x + 1)" by auto
qed

lemma exponent_of_eqI:
  assumes "pow2 e \<le> \<bar>x\<bar>" "\<bar>x\<bar> < pow2 (e + 1)"
  shows "exponent_of x = e"
proof -
  have "x \<noteq> 0" using assms(1) pow2_pos [of e] by auto
  from exponent_of_bounds [OF this] assms show ?thesis
    by (meson exponent_unique)
qed


lemma round_half_even_eqI:
  assumes "\<bar>r - of_int n\<bar> < 1 / 2"
  shows "round_half_even r = n"
proof (cases "of_int n \<le> r")
  case True
  then have "\<lfloor>r\<rfloor> = n" using assms by (intro floor_unique) auto
  then show ?thesis using assms True by (simp add: round_half_even_def Let_def)
next
  case False
  then have f: "\<lfloor>r\<rfloor> = n - 1" using assms by (intro floor_unique) auto
  have "1 / 2 < r - of_int (n - 1)" using assms False by simp
  then show ?thesis using f by (simp add: round_half_even_def Let_def)
qed

lemma round_half_even_of_int: "round_half_even (of_int k) = k"
  by (rule round_half_even_eqI) simp

lemma round_half_even_error: "\<bar>of_int (round_half_even r) - r\<bar> \<le> 1 / 2"
proof -
  have "of_int \<lfloor>r\<rfloor> \<le> r" "r < of_int \<lfloor>r\<rfloor> + 1" using floor_correct [of r] by simp_all
  then show ?thesis by (auto simp: round_half_even_def Let_def)
qed

lemma round_half_even_nonneg: "0 \<le> r \<Longrightarrow> 0 \<le> round_half_even r"
  by (auto simp: round_half_even_def Let_def)

lemma round_half_even_abs_le: "\<bar>of_int (round_half_even r)\<bar> \<le> 2 * \<bar>r\<bar>"
proof (cases "\<bar>r\<bar> < 1 / 2")
  case True
  then have "round_half_even r = 0" by (intro round_half_even_eqI) simp
  then show ?thesis by simp
next
  case False
  from round_half_even_error [of r] have "\<bar>of_int (round_half_even r)\<bar> \<le> \<bar>r\<bar> + 1 / 2" by linarith
  with False show ?thesis by linarith
qed

lemma quantum_pos: "0 < quantum x"
  by (simp add: quantum_def pow2_pos)

lemma round_to_double_unfold:
  "x \<noteq> 0 \<Longrightarrow> round_to_double x =
     (if pow2 1024 \<le> \<bar>of_int (round_half_even (x / quantum x)) * quantum x\<bar>
      then (if 0 < x then PosInf else NegInf)
      else Finite (of_int (round_half_even (x / quantum x)) * quantum x))"
  by (simp add: round_to_double_def Let_def)

lemma round_to_double_eqI:
  assumes "pow2 e \<le> \<bar>x\<bar>" "\<bar>x\<bar> < pow2 (e + 1)" "- 1022 \<le> e"
    and "\<bar>x / pow2 (e - 52) - of_int n\<bar> < 1 / 2"
    and "\<bar>of_int n * pow2 (e - 52)\<bar> < pow2 1024"
  shows "round_to_double x = Finite (of_int n * pow2 (e - 52))"
proof -
  have x0: "x \<noteq> 0" using assms(1) pow2_pos [of e] by auto
  have e: "exponent_of x = e" using assms(1,2) by (rule exponent_of_eqI)
  have q: "quantum x = pow2 (e - 52)" using assms(3) by (simp add: quantum_def e max_def)
  have n: "round_half_even (x / pow2 (e - 52)) = n" using assms(4) by (rule round_half_even_eqI)
  show ?thesis using assms(5) by (simp add: round_to_double_unfold [OF x0] q n)
qed

lemma round_to_double_exact:
  assumes "x / quantum x = of_int k" "\<bar>x\<bar> < pow2 1024"
  shows "round_to_double x = Finite x"
proof (cases "x = 0")
  case True
  then show ?thesis by (simp add: round_to_double_def)
next
  case False
  have "round_half_even (x / quantum x) = k"
    by (simp only: assms(1) round_half_even_of_int)
  then have "of_int (round_half_even (x / quantum x)) * quantum x = x / quantum x * quantum x"
    by (simp only: assms(1))
  also have "\<dots> = x" using quantum_pos [of x] by simp
  finally have "of_int (round_half_even (x / quantum x)) * quantum x = x" .
  then show ?thesis using assms(2) by (simp add: round_to_double_unfold [OF False])
qed

lemma round_to_double_finite:
  assumes "\<bar>x\<bar> < pow2 1023"
  shows "\<exists>y. round_to_double x = Finite y \<and> \<bar>y\<bar> \<le> 2 * \<bar>x\<bar> \<and> (0 \<le> x \<longrightarrow> 0 \<le> y)"
proof (cases "x = 0")
  case True
  then show ?thesis by (simp add: round_to_double_def)
next
  case False
  let ?n = "round_half_even (x / quantum x)"
  let ?y = "of_int ?n * quantum x"
  have q: "0 < quantum x" by (rule quantum_pos)
  have "\<bar>?y\<bar> = \<bar>of_int ?n\<bar> * quantum x" using q by (simp add: abs_mult)
  also have "\<dots> \<le> (2 * \<bar>x / quantum x\<bar>) * quantum x"
    using round_half_even_abs_le [of "x / quantum x"] q by (intro mult_right_mono) simp_all
  also have "\<dots> = 2 * \<bar>x\<bar>" using q by (simp add: abs_divide)
  finally have b: "\<bar>?y\<bar> \<le> 2 * \<bar>x\<bar>" .
  have "pow2 1024 = 2 * pow2 1023" using pow2_add [of 1 1023] by (simp add: pow2_def)
  with b assms have fin: "\<not> pow2 1024 \<le> \<bar>?y\<bar>" by linarith
  have pos: "0 \<le> x \<longrightarrow> 0 \<le> ?y"
    using q round_half_even_nonneg [of "x / quantum x"] by (auto intro!: mult_nonneg_nonneg)
  show ?thesis using fin b pos by (simp add: round_to_double_unfold [OF False])
qed


lemma pow2_less_cancel: "pow2 a < pow2 b \<Longrightarrow> a < b"
  using pow2_mono [of b a] by (cases "a < b") auto

lemma pow2_neg: "0 \<le> k \<Longrightarrow> pow2 (- k) = 1 / 2 ^ nat k"
  by (cases "k = 0") (simp_all add: pow2_def)

lemma round_to_double_of_int:
  assumes "\<bar>n\<bar> < 2 ^ 53"
  shows "round_to_double (of_int n) = Finite (of_int n)"
proof (cases "n = 0")
  case True
  then show ?thesis by (simp add: round_to_double_def)
next
  case False
  let ?x = "of_int n :: rat"
  let ?e = "exponent_of ?x"
  have x0: "?x \<noteq> 0" using False by simp
  have ax: "\<bar>?x\<bar> = of_int \<bar>n\<bar>" by simp
  have lo: "1 \<le> \<bar>?x\<bar>" unfolding ax using False by (simp only: of_int_1_le_iff)
  have hi: "\<bar>?x\<bar> < pow2 53"
  proof -
    have "(of_int \<bar>n\<bar> :: rat) < of_int (2 ^ 53)" using assms by (simp only: of_int_less_iff)
    then show ?thesis unfolding ax by (simp add: pow2_def)
  qed
  from exponent_of_bounds [OF x0] have b: "pow2 ?e \<le> \<bar>?x\<bar>" "\<bar>?x\<bar> < pow2 (?e + 1)" .
  have "pow2 0 < pow2 (?e + 1)" using lo b(2) by (simp add: pow2_def)
  then have e0: "0 \<le> ?e" using pow2_less_cancel by fastforce
  have "pow2 ?e < pow2 53" using b(1) hi by linarith
  then have e52: "?e \<le> 52" using pow2_less_cancel by fastforce
  have q: "quantum ?x = 1 / 2 ^ nat (52 - ?e)"
  proof -
    have "max ?e (- 1022) - 52 = - (52 - ?e)" using e0 by simp
    then show ?thesis unfolding quantum_def using pow2_neg [of "52 - ?e"] e52 by simp
  qed
  have "?x / quantum ?x = of_int (n * 2 ^ nat (52 - ?e))" by (simp add: q)
  moreover have "\<bar>?x\<bar> < pow2 1024"
  proof -
    have "pow2 53 \<le> pow2 1024" by (rule pow2_mono) simp
    with hi show ?thesis by linarith
  qed
  ultimately show ?thesis by (rule round_to_double_exact)
qed

lemma float_of_int_exact: "\<bar>n\<bar> < 2 ^ 53 \<Longrightarrow> float_of_int n = Inr (Finite (of_int n))"
  by (simp add: float_of_int_def round_to_double_of_int)

section \<open>Usage counter\<close>

lemma then_do_Inr [simp]: "then_do (Inr v) f = f v"
  by (simp add: then_do_def)

lemma then_do_Inl [simp]: "then_do (Inl e) f = Inl e"
  by (simp add: then_do_def)

lemma then_do_eq_Inr: "then_do r f = Inr y \<longleftrightarrow> (\<exists>v. r = Inr v \<and> f v = Inr y)"
  by (cases r) simp_all

lemma getitem_Some: "map_of d k = Some v \<Longrightarrow> getitem d k = Inr v"
  by (simp add: getitem_def)

lemma key_eq_refl: "key_eq a a"
  by (simp add: key_eq_def split: option.splits)

lemma key_eq_sym: "key_eq a b \<Longrightarrow> key_eq b a"
  by (auto simp: key_eq_def split: option.splits)

lemma key_eq_trans: "key_eq a b \<Longrightarrow> key_eq b c \<Longrightarrow> key_eq a c"
  by (auto simp: key_eq_def split: option.splits)

lemma key_eq_JStr [simp]: "key_eq (JStr s) k \<longleftrightarrow> k = JStr s" "key_eq k (JStr s) \<longleftrightarrow> k = JStr s"
  by (cases k; auto simp: key_eq_def)+

lemma dict_get_dict_set:
  "dict_get (dict_set d k v) j = (if key_eq k j then Some v else dict_get d j)"
proof (induction d)
  case Nil
  then show ?case by simp
next
  case (Cons entry d)
  obtain k' v' where entry: "entry = (k', v')" by (cases entry)
  show ?case
  proof (cases "key_eq k' k")
    case True
    then have "key_eq k' j \<longleftrightarrow> key_eq k j"
      by (meson key_eq_sym key_eq_trans)
    with True show ?thesis by (simp add: entry)
  next
    case False
    then have "\<not> (key_eq k' j \<and> key_eq k j)"
      by (meson key_eq_sym key_eq_trans)
    with False show ?thesis using Cons.IH by (auto simp: entry)
  qed
qed

lemma dict_get_dict_set_JStr:
  "dict_get (dict_set d (JStr s) v) j = (if j = JStr s then Some v else dict_get d j)"
  by (simp add: dict_get_dict_set)

lemma increment_Some:
  "dict_get stats (JStr key) = Some (JInt c) \<Longrightarrow>
     increment stats key = Inr (dict_set stats (JStr key) (JInt (c + 1)))"
  by (simp add: increment_def)

lemma get_usage_stats_local:
  "\<not> configured (FLEXPRICE_API_KEY ev) \<or> usage_response ev = RequestException \<Longrightarrow>
     get_usage_stats ev stats = (Inr (JObject stats), stats)"
  by (auto simp: get_usage_stats_def)

lemma log_flexprice_event_local:
  assumes "\<not> configured (FLEXPRICE_API_KEY ev)"
    and "(event_name, key) \<in> {(''scenario_simulated'', ''scenarios_simulated''),
           (''report_exported'', ''reports_exported''),
           (''ai_price_calculation'', ''ai_price_calculations'')}"
    and "dict_get stats (JStr key) = Some (JInt c)"
  shows "log_flexprice_event ev event_name stats =
           (Inr (JObject (dict_set stats (JStr key) (JInt (c + 1)))),
            dict_set stats (JStr key) (JInt (c + 1)))"
proof -
  from assms(2) consider
      (sim) "event_name = ''scenario_simulated''" "key = ''scenarios_simulated''"
    | (rep) "event_name = ''report_exported''" "key = ''reports_exported''"
    | (ai) "event_name = ''ai_price_calculation''" "key = ''ai_price_calculations''"
    by blast
  then show ?thesis
  proof cases
    case sim
    then show ?thesis
      using assms(1,3) by (simp add: log_flexprice_event_def increment_Some get_usage_stats_local)
  next
    case rep
    then show ?thesis
      using assms(1,3) by (simp add: log_flexprice_event_def increment_Some get_usage_stats_local)
  next
    case ai
    then show ?thesis
      using assms(1,3) by (simp add: log_flexprice_event_def increment_Some get_usage_stats_local)
  qed
qed

lemma log_flexprice_events_local:
  assumes "\<not> configured (FLEXPRICE_API_KEY ev)"
    and "(event_name, key) \<in> {(''scenario_simulated'', ''scenarios_simulated''),
           (''report_exported'', ''reports_exported''),
           (''ai_price_calculation'', ''ai_price_calculations'')}"
  shows "dict_get stats (JStr key) = Some (JInt c) \<Longrightarrow>
         \<exists>stats'. log_flexprice_events ev event_name n stats = Inr stats' \<and>
           (\<forall>j. dict_get stats' j =
                  (if j = JStr key then Some (JInt (c + int n)) else dict_get stats j))"
proof (induction n arbitrary: stats c)
  case 0
  then show ?case by simp
next
  case (Suc n)
  let ?s = "dict_set stats (JStr key) (JInt (c + 1))"
  have step: "log_flexprice_event ev event_name stats = (Inr (JObject ?s), ?s)"
    using assms Suc.prems by (rule log_flexprice_event_local)
  have "dict_get ?s (JStr key) = Some (JInt (c + 1))" by (simp add: dict_get_dict_set_JStr)
  from Suc.IH [OF this] obtain stats' where
    s': "log_flexprice_events ev event_name n ?s = Inr stats'"
      "\<forall>j. dict_get stats' j =
             (if j = JStr key then Some (JInt (c + 1 + int n)) else dict_get ?s j)" by blast
  have arith: "c + 1 + int n = c + int (Suc n)" by simp
  have m: "\<forall>j. dict_get stats' j =
             (if j = JStr key then Some (JInt (c + int (Suc n))) else dict_get stats j)"
    using s'(2) unfolding arith by (simp add: dict_get_dict_set_JStr)
  have r: "log_flexprice_events ev event_name (Suc n) stats = Inr stats'"
    by (simp only: log_flexprice_events.simps step prod.case sum.case s'(1))
  show ?case using r m by blast
qed

text \<open>
  Claim C6. With no metering service configured, a call of \<^verbatim>\<open>log_flexprice_event\<close> for
  one of the three event names adds one to that event's counter, leaves every other
  counter as it was and returns the updated \<^verbatim>\<open>USAGE_STATS\<close>; \<open>n\<close> successive calls
  add \<open>n\<close>.
\<close>

theorem log_event_counts_locally:
  assumes "\<not> configured (FLEXPRICE_API_KEY ev)"
    and "(event_name, key) \<in> {(''scenario_simulated'', ''scenarios_simulated''),
           (''report_exported'', ''reports_exported''),
           (''ai_price_calculation'', ''ai_price_calculations'')}"
    and "dict_get stats (JStr key) = Some (JInt c)"
  shows "\<exists>stats'. log_flexprice_event ev event_name stats = (Inr (JObject stats'), stats') \<and>
           dict_get stats' (JStr key) = Some (JInt (c + 1)) \<and>
           (\<forall>k. k \<noteq> JStr key \<longrightarrow> dict_get stats' k = dict_get stats k) \<and>
           (\<forall>n. \<exists>stats_n. log_flexprice_events ev event_name n stats = Inr stats_n \<and>
                  dict_get stats_n (JStr key) = Some (JInt (c + int n)) \<and>
                  (\<forall>k. k \<noteq> JStr key \<longrightarrow> dict_get stats_n k = dict_get stats k))"
proof -
  let ?s = "dict_set stats (JStr key) (JInt (c + 1))"
  have one: "log_flexprice_event ev event_name stats = (Inr (JObject ?s), ?s)"
    using assms by (rule log_flexprice_event_local)
  have own: "dict_get ?s (JStr key) = Some (JInt (c + 1))" by (simp add: dict_get_dict_set_JStr)
  have others: "\<forall>k. k \<noteq> JStr key \<longrightarrow> dict_get ?s k = dict_get stats k"
    by (simp add: dict_get_dict_set_JStr)
  have many: "\<forall>n. \<exists>stats_n. log_flexprice_events ev event_name n stats = Inr stats_n \<and>
                  dict_get stats_n (JStr key) = Some (JInt (c + int n)) \<and>
                  (\<forall>k. k \<noteq> JStr key \<longrightarrow> dict_get stats_n k = dict_get stats k)"
  proof
    fix n
    from log_flexprice_events_local [OF assms(1,2,3), of n] obtain stats_n where
      n: "log_flexprice_events ev event_name n stats = Inr stats_n"
         "\<forall>j. dict_get stats_n j =
                (if j = JStr key then Some (JInt (c + int n)) else dict_get stats j)" by blast
    have k: "dict_get stats_n (JStr key) = Some (JInt (c + int n))" using n(2) by simp
    have o: "\<forall>k. k \<noteq> JStr key \<longrightarrow> dict_get stats_n k = dict_get stats k"
      using n(2) by simp
    show "\<exists>stats_n. log_flexprice_events ev event_name n stats = Inr stats_n \<and>
                  dict_get stats_n (JStr key) = Some (JInt (c + int n)) \<and>
                  (\<forall>k. k \<noteq> JStr key \<longrightarrow> dict_get stats_n k = dict_get stats k)"
      by (rule exI [of _ stats_n]) (intro conjI n(1) k o)
  qed
  show ?thesis
    by (rule exI [of _ ?s]) (intro conjI one own others many)
qed

theorem log_event_counts_locally_witness:
  "\<exists>stats'. log_flexprice_event local_env ''report_exported'' USAGE_STATS
       = (Inr (JObject stats'), stats') \<and>
     dict_get stats' (JStr ''reports_exported'') = Some (JInt 1) \<and>
     dict_get stats' (JStr ''scenarios_simulated'') = Some (JInt 0) \<and>
     dict_get stats' (JStr ''ai_price_calculations'') = Some (JInt 0) \<and>
     (\<exists>stats_n. log_flexprice_events local_env ''report_exported'' 3 USAGE_STATS = Inr stats_n \<and>
        dict_get stats_n (JStr ''reports_exported'') = Some (JInt 3) \<and>
        dict_get stats_n (JStr ''scenarios_simulated'') = Some (JInt 0))"
proof -
  have h1: "\<not> configured (FLEXPRICE_API_KEY local_env)"
    by (simp add: local_env_def configured_def)
  have h2: "(''report_exported'', ''reports_exported'') \<in>
      {(''scenario_simulated'', ''scenarios_simulated''),
       (''report_exported'', ''reports_exported''),
       (''ai_price_calculation'', ''ai_price_calculations'')}" by simp
  have h3: "dict_get USAGE_STATS (JStr ''reports_exported'') = Some (JInt 0)"
    by (simp add: USAGE_STATS_def)
  from log_event_counts_locally [OF h1 h2 h3] obtain stats' where
    s: "log_flexprice_event local_env ''report_exported'' USAGE_STATS = (Inr (JObject stats'), stats')"
       "dict_get stats' (JStr ''reports_exported'') = Some (JInt (0 + 1))"
       "\<forall>k. k \<noteq> JStr ''reports_exported'' \<longrightarrow> dict_get stats' k = dict_get USAGE_STATS k"
       "\<forall>n. \<exists>stats_n. log_flexprice_events local_env ''report_exported'' n USAGE_STATS = Inr stats_n \<and>
                  dict_get stats_n (JStr ''reports_exported'') = Some (JInt (0 + int n)) \<and>
                  (\<forall>k. k \<noteq> JStr ''reports_exported'' \<longrightarrow> dict_get stats_n k = dict_get USAGE_STATS k)"
    by (elim exE conjE)
  from s(4) [rule_format, of 3] obtain stats_n where
    n: "log_flexprice_events local_env ''report_exported'' 3 USAGE_STATS = Inr stats_n"
       "dict_get stats_n (JStr ''reports_exported'') = Some (JInt (0 + int 3))"
       "\<forall>k. k \<noteq> JStr ''reports_exported'' \<longrightarrow> dict_get stats_n k = dict_get USAGE_STATS k"
    by (elim exE conjE)
  have a: "dict_get stats' (JStr ''scenarios_simulated'') = Some (JInt 0)"
    using s(3) [rule_format, of "JStr ''scenarios_simulated''"] by (simp add: USAGE_STATS_def)
  have b: "dict_get stats' (JStr ''ai_price_calculations'') = Some (JInt 0)"
    using s(3) [rule_format, of "JStr ''ai_price_calculations''"] by (simp add: USAGE_STATS_def)
  have c: "dict_get stats_n (JStr ''scenarios_simulated'') = Some (JInt 0)"
    using n(3) [rule_format, of "JStr ''scenarios_simulated''"] by (simp add: USAGE_STATS_def)
  have d: "dict_get stats' (JStr ''reports_exported'') = Some (JInt 1)" using s(2) by simp
  have e: "dict_get stats_n (JStr ''reports_exported'') = Some (JInt 3)" using n(2) by simp
  have f: "\<exists>stats_n. log_flexprice_events local_env ''report_exported'' 3 USAGE_STATS = Inr stats_n \<and>
        dict_get stats_n (JStr ''reports_exported'') = Some (JInt 3) \<and>
        dict_get stats_n (JStr ''scenarios_simulated'') = Some (JInt 0)"
    by (rule exI [of _ stats_n]) (intro conjI n(1) e c)
  show ?thesis
    by (rule exI [of _ stats']) (intro conjI s(1) d a b f)
qed

section \<open>Forecast projector\<close>

lemma forecast_rows_nth:
  assumes "1 \<le> d" "j < nat d"
  shows "zip [1..d] (map f [0..d - 1]) ! j = (1 + int j, f (int j))"
proof -
  have a: "[1..d] ! j = 1 + int j" using assms by (intro nth_upto) linarith
  have b: "[0..d - 1] ! j = 0 + int j" using assms by (intro nth_upto) linarith
  show ?thesis using assms a b by simp
qed

lemma forecast_rows_length:
  "1 \<le> d \<Longrightarrow> length (zip [1..d] (map f [0..d - 1])) = nat d"
  by simp

text \<open>What \<^verbatim>\<open>build_forecast_df\<close> computes when the keys it reads are there.\<close>

lemma build_forecast_df_rows:
  assumes "map_of metrics ''monthly_revenue'' = Some revenue"
    and "map_of metrics ''monthly_cogs'' = Some cogs"
    and "map_of metrics ''monthly_opex'' = Some opex"
    and "build_forecast_df metrics = Inr rows"
  shows "\<exists>starting_cash d.
           d = (case map_of metrics ''runway'' of
                  None \<Rightarrow> 36 | Some months \<Rightarrow> if months \<le> 0 then 1 else months) \<and>
           (revenue - cogs - opex < 0 \<longrightarrow>
              (\<exists>months. map_of metrics ''runway'' = Some months \<and>
                 starting_cash = months * - (revenue - cogs - opex))) \<and>
           (0 \<le> revenue - cogs - opex \<longrightarrow> starting_cash = revenue * 12) \<and>
           rows = zip [1..d]
                    (map (\<lambda>i. max 0 (starting_cash + (revenue - cogs - opex) * i)) [0..d - 1])"
proof (cases "revenue - cogs - opex < 0")
  case True
  show ?thesis
  proof (cases "map_of metrics ''runway''")
    case None
    then show ?thesis
      using assms True by (simp add: build_forecast_df_def getitem_def Let_def)
  next
    case (Some months)
    then show ?thesis
      using assms True by (simp add: build_forecast_df_def getitem_def Let_def)
  qed
next
  case False
  then show ?thesis
    using assms by (auto simp: build_forecast_df_def getitem_def Let_def split: option.splits)
qed


lemma build_forecast_df_keys:
  assumes "build_forecast_df metrics = Inr rows"
  shows "\<exists>revenue cogs opex. map_of metrics ''monthly_revenue'' = Some revenue \<and>
           map_of metrics ''monthly_cogs'' = Some cogs \<and> map_of metrics ''monthly_opex'' = Some opex"
  using assms
  by (auto simp: build_forecast_df_def getitem_def then_do_def split: option.splits)

text \<open>
  Claim C3, amended. When \<^verbatim>\<open>build_forecast_df\<close> returns, the number of rows is the runway
  if the key is present and positive, 36 if the key is absent, and 1 if the runway is
  present and not positive; the months are 1 up to that number.
\<close>

theorem forecast_horizon:
  assumes "build_forecast_df metrics = Inr rows"
  shows "int (length rows) =
           (case map_of metrics ''runway'' of
              None \<Rightarrow> 36 | Some months \<Rightarrow> if months \<le> 0 then 1 else months) \<and>
         map fst rows = [1..int (length rows)]"
proof -
  from build_forecast_df_keys [OF assms] obtain revenue cogs opex where
    k: "map_of metrics ''monthly_revenue'' = Some revenue"
       "map_of metrics ''monthly_cogs'' = Some cogs"
       "map_of metrics ''monthly_opex'' = Some opex" by blast
  from build_forecast_df_rows [OF k assms] obtain starting_cash d where
    d: "d = (case map_of metrics ''runway'' of
               None \<Rightarrow> 36 | Some months \<Rightarrow> if months \<le> 0 then 1 else months)"
    and rows: "rows = zip [1..d]
        (map (\<lambda>i. max 0 (starting_cash + (revenue - cogs - opex) * i)) [0..d - 1])"
    by blast
  have d1: "1 \<le> d" unfolding d by (simp split: option.splits)
  have len: "length rows = nat d" unfolding rows using d1 by (rule forecast_rows_length)
  have "map fst rows = [1..d]" unfolding rows using d1 by (simp add: map_fst_zip)
  then show ?thesis using len d1 d by simp
qed

theorem forecast_horizon_witness:
  "build_forecast_df burning_metrics = Inr [(1, 270), (2, 180), (3, 90)] \<and>
   int (length [(1, 270), (2, 180), (3, 90 :: int)]) = 3 \<and>
   map fst [(1, 270), (2, 180), (3, 90 :: int)] = [1..3]"
proof -
  have r: "build_forecast_df burning_metrics = Inr [(1, 270), (2, 180), (3, 90)]"
    by (simp add: build_forecast_df_def burning_metrics_def getitem_def Let_def upto.simps)
  from forecast_horizon [OF r] show ?thesis
    using r by (simp add: burning_metrics_def)
qed

theorem forecast_horizon_counterexample:
  "build_forecast_df zero_runway_metrics = Inr [(1, 2640000)] \<and>
   specified_horizon zero_runway_metrics = 36"
  by (simp add: build_forecast_df_def zero_runway_metrics_def getitem_def Let_def
      specified_horizon_def upto.simps)

text \<open>
  Claim C4. For metrics with runway 0 the forecast is exactly one row, for month 1.
\<close>

theorem forecast_zero_runway:
  assumes "map_of metrics ''runway'' = Some 0"
    and "map_of metrics ''monthly_revenue'' = Some revenue"
    and "map_of metrics ''monthly_cogs'' = Some cogs"
    and "map_of metrics ''monthly_opex'' = Some opex"
  shows "build_forecast_df metrics =
           Inr [(1, max 0 (if revenue - cogs - opex < 0 then 0 else revenue * 12))]"
  using assms by (simp add: build_forecast_df_def getitem_def Let_def upto.simps)

theorem forecast_zero_runway_witness:
  "build_forecast_df zero_runway_metrics = Inr [(1, 2640000)]"
proof -
  have "build_forecast_df zero_runway_metrics =
      Inr [(1, max 0 (if (220000::int) - 40000 - 150000 < 0 then 0 else 220000 * 12))]"
    by (rule forecast_zero_runway) (simp_all add: zero_runway_metrics_def)
  then show ?thesis by simp
qed


text \<open>
  Claim C5. No cash balance of a forecast is negative; and when the net profit is
  negative the balances never increase from one month to the next, and after a balance
  of 0 every later balance is 0.
\<close>

theorem forecast_cash_balance:
  assumes "build_forecast_df metrics = Inr rows"
    and "map_of metrics ''monthly_revenue'' = Some revenue"
    and "map_of metrics ''monthly_cogs'' = Some cogs"
    and "map_of metrics ''monthly_opex'' = Some opex"
  shows "(\<forall>row \<in> set rows. 0 \<le> snd row) \<and>
         (revenue - cogs - opex < 0 \<longrightarrow>
            (\<forall>i j. i \<le> j \<and> j < length rows \<longrightarrow> snd (rows ! j) \<le> snd (rows ! i)) \<and>
            (\<forall>i j. i \<le> j \<and> j < length rows \<and> snd (rows ! i) = 0 \<longrightarrow> snd (rows ! j) = 0))"
proof -
  let ?np = "revenue - cogs - opex"
  from build_forecast_df_rows [OF assms(2,3,4,1)] obtain starting_cash d where
    d: "d = (case map_of metrics ''runway'' of
               None \<Rightarrow> 36 | Some months \<Rightarrow> if months \<le> 0 then 1 else months)"
    and rows: "rows = zip [1..d] (map (\<lambda>i. max 0 (starting_cash + ?np * i)) [0..d - 1])"
    by blast
  let ?f = "\<lambda>i. max 0 (starting_cash + ?np * i)"
  have d1: "1 \<le> d" unfolding d by (simp split: option.splits)
  have len: "length rows = nat d" unfolding rows using d1 by (rule forecast_rows_length)
  have nth: "snd (rows ! j) = ?f (int j)" if "j < length rows" for j
    using forecast_rows_nth [OF d1, of j ?f] that len unfolding rows by simp
  have nonneg: "\<forall>row \<in> set rows. 0 \<le> snd row"
  proof
    fix row assume "row \<in> set rows"
    then obtain j where "j < length rows" "row = rows ! j" by (auto simp: in_set_conv_nth)
    then show "0 \<le> snd row" using nth [of j] by simp
  qed
  have mono: "snd (rows ! j) \<le> snd (rows ! i)" if "?np < 0" "i \<le> j" "j < length rows" for i j
  proof -
    have "?np * int j \<le> ?np * int i"
      using that(1,2) by (intro mult_left_mono_neg) simp_all
    moreover have "i < length rows" using that(2,3) by simp
    ultimately show ?thesis using nth [of i] nth [of j] that(3) by linarith
  qed
  have zero: "snd (rows ! j) = 0"
    if "?np < 0" "i \<le> j" "j < length rows" "snd (rows ! i) = 0" for i j
  proof -
    have "snd (rows ! j) \<le> 0" using mono [OF that(1,2,3)] that(4) by simp
    moreover have "0 \<le> snd (rows ! j)" using nth [of j] that(3) by simp
    ultimately show ?thesis by simp
  qed
  show ?thesis
  proof (intro conjI impI allI)
    show "\<forall>row \<in> set rows. 0 \<le> snd row" by (rule nonneg)
  next
    fix i j assume "?np < 0" "i \<le> j \<and> j < length rows"
    then show "snd (rows ! j) \<le> snd (rows ! i)" using mono by blast
  next
    fix i j assume "?np < 0" "i \<le> j \<and> j < length rows \<and> snd (rows ! i) = 0"
    then show "snd (rows ! j) = 0" using zero by blast
  qed
qed

theorem forecast_cash_balance_witness:
  "build_forecast_df burning_metrics = Inr [(1, 270), (2, 180), (3, 90)] \<and>
   0 \<le> snd ([(1, 270), (2, 180), (3, 90 :: int)] ! 2) \<and>
   snd ([(1, 270), (2, 180), (3, 90 :: int)] ! 2) \<le> snd ([(1 :: int, 270), (2, 180), (3, 90)] ! 0)"
proof -
  have r: "build_forecast_df burning_metrics = Inr [(1, 270), (2, 180), (3, 90)]"
    by (simp add: build_forecast_df_def burning_metrics_def getitem_def Let_def upto.simps)
  have k: "map_of burning_metrics ''monthly_revenue'' = Some 100"
    "map_of burning_metrics ''monthly_cogs'' = Some 40"
    "map_of burning_metrics ''monthly_opex'' = Some 150"
    by (simp_all add: burning_metrics_def)
  note t = forecast_cash_balance [OF r k]
  have a: "0 \<le> snd ([(1, 270), (2, 180), (3, 90 :: int)] ! 2)"
    using t [THEN conjunct1] by simp
  have neg: "(100::int) - 40 - 150 < 0" by simp
  have b: "snd ([(1, 270), (2, 180), (3, 90 :: int)] ! 2) \<le> snd ([(1 :: int, 270), (2, 180), (3, 90)] ! 0)"
    using t [THEN conjunct2, THEN mp, OF neg, THEN conjunct1, rule_format, of 0 2] by simp
  show ?thesis by (intro conjI r a b)
qed

section \<open>Pricing assistant\<close>

lemma log_ai_price_calculation:
  assumes "dict_get stats (JStr ''ai_price_calculations'') = Some (JInt c)"
  shows "log_flexprice_event ev ''ai_price_calculation'' stats =
           get_usage_stats ev (dict_set stats (JStr ''ai_price_calculations'') (JInt (c + 1)))"
  using assms by (simp add: log_flexprice_event_def increment_Some)

lemma calculate_price_state:
  "snd (calculate_price ev product_description stats) =
     snd (log_flexprice_event ev ''ai_price_calculation'' stats)"
  unfolding calculate_price_def
  by (cases "log_flexprice_event ev ''ai_price_calculation'' stats")
     (simp split: sum.splits)

lemma json_compliant_dict_set:
  "json_compliant (JObject d) \<Longrightarrow> json_compliant k \<Longrightarrow> json_compliant v \<Longrightarrow>
     json_compliant (JObject (dict_set d k v))"
  by (induction d) auto

lemma calculate_price_with_key:
  assumes "configured (GEMINI_API_KEY ev)"
    and "log_flexprice_event ev ''ai_price_calculation'' stats = (Inr snapshot, stats')"
    and "generate_content ev (prompt_for product_description) = Inr text"
    and "json_loads ev (clean_response text) = Inl message"
  shows "calculate_price ev product_description stats =
           (Inl (HTTPException 500 (''Error with Gemini API: '' @ message)), stats')"
  using assms by (simp add: calculate_price_def)

lemma calculate_price_logging_failed:
  assumes "log_flexprice_event ev ''ai_price_calculation'' stats = (Inl e, stats')"
  shows "calculate_price ev product_description stats = (Inl e, stats')"
  using assms by (simp add: calculate_price_def)

text \<open>
  Claim C7, amended. With a language-model key, when \<^verbatim>\<open>json.loads\<close> raises on the
  model's answer with the code fences stripped, the endpoint fails and returns no price:
  when logging the event returned, and so whenever no metering service is configured or
  its request fails, the failure is \<^verbatim>\<open>HTTPException(500)\<close> whose detail is the
  parser's message after \<^verbatim>\<open>Error with Gemini API: \<close>.
\<close>

theorem malformed_model_output_fails:
  assumes "configured (GEMINI_API_KEY ev)"
    and "generate_content ev (prompt_for product_description) = Inr text"
    and "json_loads ev (clean_response text) = Inl message"
  shows "(\<exists>failure. fst (calculate_price ev product_description stats) = Inl failure) \<and>
         (\<forall>snapshot stats'.
            log_flexprice_event ev ''ai_price_calculation'' stats = (Inr snapshot, stats') \<longrightarrow>
            calculate_price ev product_description stats =
              (Inl (HTTPException 500 (''Error with Gemini API: '' @ message)), stats')) \<and>
         ((\<not> configured (FLEXPRICE_API_KEY ev) \<or> usage_response ev = RequestException) \<and>
          dict_get stats (JStr ''ai_price_calculations'') = Some (JInt c) \<longrightarrow>
            fst (calculate_price ev product_description stats) =
              Inl (HTTPException 500 (''Error with Gemini API: '' @ message)))"
proof (intro conjI allI impI)
  show "\<exists>failure. fst (calculate_price ev product_description stats) = Inl failure"
  proof (cases "log_flexprice_event ev ''ai_price_calculation'' stats")
    case (Pair result stats')
    show ?thesis
    proof (cases result)
      case (Inl e)
      with Pair show ?thesis by (simp add: calculate_price_logging_failed)
    next
      case (Inr snapshot)
      with Pair show ?thesis using assms by (simp add: calculate_price_with_key)
    qed
  qed
next
  fix snapshot stats'
  assume "log_flexprice_event ev ''ai_price_calculation'' stats = (Inr snapshot, stats')"
  then show "calculate_price ev product_description stats =
      (Inl (HTTPException 500 (''Error with Gemini API: '' @ message)), stats')"
    using assms by (simp add: calculate_price_with_key)
next
  assume a: "(\<not> configured (FLEXPRICE_API_KEY ev) \<or> usage_response ev = RequestException) \<and>
    dict_get stats (JStr ''ai_price_calculations'') = Some (JInt c)"
  then have "log_flexprice_event ev ''ai_price_calculation'' stats =
      (Inr (JObject (dict_set stats (JStr ''ai_price_calculations'') (JInt (c + 1)))),
       dict_set stats (JStr ''ai_price_calculations'') (JInt (c + 1)))"
    by (simp add: log_ai_price_calculation get_usage_stats_local)
  then show "fst (calculate_price ev product_description stats) =
      Inl (HTTPException 500 (''Error with Gemini API: '' @ message))"
    using assms by (simp add: calculate_price_with_key)
qed

theorem malformed_model_output_fails_witness:
  "fst (calculate_price failing_model_env ''a tea subscription'' USAGE_STATS) =
     Inl (HTTPException 500
       (''Error with Gemini API: '' @ ''Expecting value: line 1 column 1 (char 0)''))"
proof -
  have k: "configured (GEMINI_API_KEY failing_model_env)"
    by (simp add: failing_model_env_def configured_def)
  have g: "generate_content failing_model_env (prompt_for ''a tea subscription'') =
      Inr ''I cannot price this product.''"
    by (simp add: failing_model_env_def)
  have j: "json_loads failing_model_env (clean_response ''I cannot price this product.'') =
      Inl ''Expecting value: line 1 column 1 (char 0)''"
    by (simp add: failing_model_env_def)
  have l: "(\<not> configured (FLEXPRICE_API_KEY failing_model_env) \<or>
      usage_response failing_model_env = RequestException) \<and>
      dict_get USAGE_STATS (JStr ''ai_price_calculations'') = Some (JInt 0)"
    by (simp add: failing_model_env_def configured_def USAGE_STATS_def)
  from malformed_model_output_fails [OF k g j, of USAGE_STATS 0, THEN conjunct2, THEN conjunct2,
      THEN mp, OF l]
  show ?thesis .
qed


lemma valid_json_example:
  "valid_json (''{'' @ [CHR 0x22] @ ''optimal_price'' @ [CHR 0x22] @ '': 49, '' @ [CHR 0x22]
     @ ''usage_stats'' @ [CHR 0x22] @ '': [1, 2.5e-3, true, null, {}]}'')"
  by code_simp

lemma clean_nan_answer: "clean_response nan_answer = nan_answer"
  by code_simp

lemma nan_answer_invalid: "\<not> valid_json nan_answer"
  by code_simp

theorem malformed_model_output_fails_counterexample:
  "\<not> valid_json (clean_response nan_answer) \<and>
   configured (GEMINI_API_KEY nan_model_env) \<and>
   generate_content nan_model_env (prompt_for ''a tea subscription'') = Inr nan_answer \<and>
   fst (calculate_price nan_model_env ''a tea subscription'' USAGE_STATS) =
     Inr (JObject
       [(JStr ''optimal_price'', JInt 49),
        (JStr ''usage_stats'',
         JObject [(JStr ''scenarios_simulated'', JInt 0), (JStr ''reports_exported'', JInt 0),
                  (JStr ''ai_price_calculations'', JInt 1)])])"
proof -
  have l: "log_flexprice_event nan_model_env ''ai_price_calculation'' USAGE_STATS =
      (Inr (JObject [(JStr ''scenarios_simulated'', JInt 0), (JStr ''reports_exported'', JInt 0),
                  (JStr ''ai_price_calculations'', JInt 1)]),
       [(JStr ''scenarios_simulated'', JInt 0), (JStr ''reports_exported'', JInt 0),
                  (JStr ''ai_price_calculations'', JInt 1)])"
    by (simp add: log_flexprice_event_def increment_def USAGE_STATS_def get_usage_stats_def
        nan_model_env_def configured_def)
  have k: "configured (GEMINI_API_KEY nan_model_env)"
    by (simp add: nan_model_env_def configured_def)
  have g: "generate_content nan_model_env (prompt_for ''a tea subscription'') = Inr nan_answer"
    by (simp add: nan_model_env_def)
  have j: "json_loads nan_model_env nan_answer =
      Inr (JObject [(JStr ''optimal_price'', JInt 49), (JStr ''usage_stats'', JFloat NaN)])"
    by (simp add: nan_model_env_def)
  have c: "fst (calculate_price nan_model_env ''a tea subscription'' USAGE_STATS) =
     Inr (JObject
       [(JStr ''optimal_price'', JInt 49),
        (JStr ''usage_stats'',
         JObject [(JStr ''scenarios_simulated'', JInt 0), (JStr ''reports_exported'', JInt 0),
                  (JStr ''ai_price_calculations'', JInt 1)])])"
    by (simp add: calculate_price_def l k g clean_nan_answer j JSONResponse_def)
  show ?thesis using nan_answer_invalid k g c by (simp add: clean_nan_answer)
qed

text \<open>
  Claim C8, amended. Without a language-model key the endpoint returns, for every
  product description, the price 999, the reasoning
  \<^verbatim>\<open>GEMINI_API_KEY not configured.\<close> and the usage statistics that logging the event
  returned, whenever logging returns statistics free of NaN and infinities; it does
  when no metering service is configured, or its request fails, and the local counters
  are finite with an integer count of price calculations.
\<close>

theorem fallback_price_without_key:
  assumes "\<not> configured (GEMINI_API_KEY ev)"
  shows "(\<forall>snapshot stats'.
            log_flexprice_event ev ''ai_price_calculation'' stats = (Inr snapshot, stats') \<and>
            json_compliant snapshot \<longrightarrow>
            calculate_price ev product_description stats =
              (Inr (JObject [(JStr ''optimal_price'', JInt 999),
                             (JStr ''reasoning'', JStr ''GEMINI_API_KEY not configured.''),
                             (JStr ''usage_stats'', snapshot)]),
               stats')) \<and>
         ((\<not> configured (FLEXPRICE_API_KEY ev) \<or> usage_response ev = RequestException) \<and>
          dict_get stats (JStr ''ai_price_calculations'') = Some (JInt c) \<and>
          json_compliant (JObject stats) \<longrightarrow>
            (\<exists>stats'. dict_get stats' (JStr ''ai_price_calculations'') = Some (JInt (c + 1)) \<and>
               calculate_price ev product_description stats =
                 (Inr (JObject [(JStr ''optimal_price'', JInt 999),
                                (JStr ''reasoning'', JStr ''GEMINI_API_KEY not configured.''),
                                (JStr ''usage_stats'', JObject stats')]),
                  stats')))"
proof (intro conjI allI impI)
  fix snapshot stats'
  assume "log_flexprice_event ev ''ai_price_calculation'' stats = (Inr snapshot, stats') \<and>
    json_compliant snapshot"
  then show "calculate_price ev product_description stats =
      (Inr (JObject [(JStr ''optimal_price'', JInt 999),
                     (JStr ''reasoning'', JStr ''GEMINI_API_KEY not configured.''),
                     (JStr ''usage_stats'', snapshot)]),
       stats')"
    using assms by (simp add: calculate_price_def JSONResponse_def)
next
  let ?s = "dict_set stats (JStr ''ai_price_calculations'') (JInt (c + 1))"
  assume a: "(\<not> configured (FLEXPRICE_API_KEY ev) \<or> usage_response ev = RequestException) \<and>
    dict_get stats (JStr ''ai_price_calculations'') = Some (JInt c) \<and>
    json_compliant (JObject stats)"
  then have l: "log_flexprice_event ev ''ai_price_calculation'' stats = (Inr (JObject ?s), ?s)"
    by (simp add: log_ai_price_calculation get_usage_stats_local)
  have j: "json_compliant (JObject ?s)"
    using a by (intro json_compliant_dict_set) simp_all
  have "calculate_price ev product_description stats =
      (Inr (JObject [(JStr ''optimal_price'', JInt 999),
                     (JStr ''reasoning'', JStr ''GEMINI_API_KEY not configured.''),
                     (JStr ''usage_stats'', JObject ?s)]),
       ?s)"
    using assms l j by (simp add: calculate_price_def JSONResponse_def del: json_compliant.simps)
       (simp add: j)
  moreover have "dict_get ?s (JStr ''ai_price_calculations'') = Some (JInt (c + 1))"
    by (simp add: dict_get_dict_set_JStr)
  ultimately show "\<exists>stats'. dict_get stats' (JStr ''ai_price_calculations'') = Some (JInt (c + 1)) \<and>
               calculate_price ev product_description stats =
                 (Inr (JObject [(JStr ''optimal_price'', JInt 999),
                                (JStr ''reasoning'', JStr ''GEMINI_API_KEY not configured.''),
                                (JStr ''usage_stats'', JObject stats')]),
                  stats')"
    by blast
qed


theorem fallback_price_without_key_witness:
  "\<exists>stats'. dict_get stats' (JStr ''ai_price_calculations'') = Some (JInt (0 + 1)) \<and>
     calculate_price local_env ''a tea subscription'' USAGE_STATS =
       (Inr (JObject [(JStr ''optimal_price'', JInt 999),
                      (JStr ''reasoning'', JStr ''GEMINI_API_KEY not configured.''),
                      (JStr ''usage_stats'', JObject stats')]),
        stats')"
proof -
  have k: "\<not> configured (GEMINI_API_KEY local_env)"
    by (simp add: local_env_def configured_def)
  have l: "(\<not> configured (FLEXPRICE_API_KEY local_env) \<or>
      usage_response local_env = RequestException) \<and>
      dict_get USAGE_STATS (JStr ''ai_price_calculations'') = Some (JInt 0) \<and>
      json_compliant (JObject USAGE_STATS)"
    by (simp add: local_env_def configured_def USAGE_STATS_def)
  from fallback_price_without_key [OF k, of USAGE_STATS "''a tea subscription''" 0,
      THEN conjunct2, THEN mp, OF l]
  show ?thesis .
qed

theorem fallback_price_without_key_counterexample:
  "\<not> configured (GEMINI_API_KEY null_metering_env) \<and>
   calculate_price null_metering_env ''a tea subscription'' USAGE_STATS =
     (Inl TypeError,
      [(JStr ''scenarios_simulated'', JInt 0), (JStr ''reports_exported'', JInt 0),
       (JStr ''ai_price_calculations'', JInt 1)])"
  by (simp add: calculate_price_def log_flexprice_event_def increment_def USAGE_STATS_def
      get_usage_stats_def null_metering_env_def configured_def)

text \<open>
  Claim C10, amended. The event is logged before the model is called, so whatever the
  model answers, \<^verbatim>\<open>USAGE_STATS\<close> after the request is what logging left; when the
  request fails and no metering service is configured, or its statistics cannot be
  fetched, the counter of price calculations stands one higher and nothing else changed.
\<close>

theorem failed_pricing_keeps_count:
  assumes "dict_get stats (JStr ''ai_price_calculations'') = Some (JInt c)"
  shows "snd (calculate_price ev product_description stats) =
           snd (get_usage_stats ev
                  (dict_set stats (JStr ''ai_price_calculations'') (JInt (c + 1)))) \<and>
         (fst (calculate_price ev product_description stats) = Inl failure \<and>
          (\<not> configured (FLEXPRICE_API_KEY ev) \<or> usage_response ev = RequestException) \<longrightarrow>
            dict_get (snd (calculate_price ev product_description stats))
              (JStr ''ai_price_calculations'') = Some (JInt (c + 1)) \<and>
            (\<forall>k. k \<noteq> JStr ''ai_price_calculations'' \<longrightarrow>
               dict_get (snd (calculate_price ev product_description stats)) k = dict_get stats k))"
proof -
  have s: "snd (calculate_price ev product_description stats) =
      snd (get_usage_stats ev (dict_set stats (JStr ''ai_price_calculations'') (JInt (c + 1))))"
    by (simp only: calculate_price_state log_ai_price_calculation [OF assms])
  have "snd (get_usage_stats ev (dict_set stats (JStr ''ai_price_calculations'') (JInt (c + 1)))) =
      dict_set stats (JStr ''ai_price_calculations'') (JInt (c + 1))"
    if "\<not> configured (FLEXPRICE_API_KEY ev) \<or> usage_response ev = RequestException"
    using that by (simp add: get_usage_stats_local)
  then show ?thesis unfolding s by (simp add: dict_get_dict_set_JStr)
qed

theorem failed_pricing_keeps_count_witness:
  "fst (calculate_price failing_model_env ''a tea subscription'' USAGE_STATS) =
     Inl (HTTPException 500
       (''Error with Gemini API: '' @ ''Expecting value: line 1 column 1 (char 0)'')) \<and>
   dict_get (snd (calculate_price failing_model_env ''a tea subscription'' USAGE_STATS))
     (JStr ''ai_price_calculations'') = Some (JInt 1) \<and>
   dict_get (snd (calculate_price failing_model_env ''a tea subscription'' USAGE_STATS))
     (JStr ''reports_exported'') = Some (JInt 0)"
proof -
  have f: "fst (calculate_price failing_model_env ''a tea subscription'' USAGE_STATS) =
     Inl (HTTPException 500
       (''Error with Gemini API: '' @ ''Expecting value: line 1 column 1 (char 0)''))"
    by (simp add: calculate_price_def log_flexprice_event_def increment_def
        USAGE_STATS_def get_usage_stats_def failing_model_env_def configured_def)
  have k: "dict_get USAGE_STATS (JStr ''ai_price_calculations'') = Some (JInt 0)"
    by (simp add: USAGE_STATS_def)
  have local: "\<not> configured (FLEXPRICE_API_KEY failing_model_env) \<or>
      usage_response failing_model_env = RequestException"
    by (simp add: failing_model_env_def)
  note t = failed_pricing_keeps_count [OF k, THEN conjunct2, THEN mp, OF conjI, OF f local]
  have a: "dict_get (snd (calculate_price failing_model_env ''a tea subscription'' USAGE_STATS))
     (JStr ''ai_price_calculations'') = Some (JInt 1)"
    using t [THEN conjunct1] by simp
  have b: "dict_get (snd (calculate_price failing_model_env ''a tea subscription'' USAGE_STATS))
     (JStr ''reports_exported'') = Some (JInt 0)"
    using t [THEN conjunct2, rule_format, of "JStr ''reports_exported''"]
    by (simp add: USAGE_STATS_def)
  show ?thesis by (intro conjI f a b)
qed

theorem failed_pricing_keeps_count_counterexample:
  "fst (calculate_price metered_env ''a tea subscription'' USAGE_STATS) =
     Inl (HTTPException 500 ''Error with Gemini API: 503 model unavailable'') \<and>
   dict_get USAGE_STATS (JStr ''ai_price_calculations'') = Some (JInt 0) \<and>
   dict_get (snd (calculate_price metered_env ''a tea subscription'' USAGE_STATS))
     (JStr ''ai_price_calculations'') = Some (JInt 0)"
  by (simp add: calculate_price_def log_flexprice_event_def increment_def
      USAGE_STATS_def get_usage_stats_def metered_env_def configured_def)

section \<open>Scenario engine\<close>

lemma float_mul_Finite:
  "float_mul x y = Finite z \<longleftrightarrow> (\<exists>a b. x = Finite a \<and> y = Finite b \<and> round_to_double (a * b) = Finite z)"
  by (cases x; cases y) (simp_all add: signed_inf_def)

lemma float_add_Finite:
  "float_add x y = Finite z \<longleftrightarrow> (\<exists>a b. x = Finite a \<and> y = Finite b \<and> round_to_double (a + b) = Finite z)"
  by (cases x; cases y) simp_all

lemma float_of_int_Inr:
  "float_of_int n = Inr x \<longleftrightarrow> (\<exists>y. round_to_double (of_int n) = Finite y \<and> x = Finite y)"
  by (cases "round_to_double (of_int n)") (auto simp: float_of_int_def)

lemma int_of_float_Inr:
  "int_of_float x = Inr n \<longleftrightarrow> (\<exists>a. x = Finite a \<and> n = trunc a)"
  by (cases x) auto

lemma float_truediv_100_Finite:
  "float_truediv x (Finite 100) = Inr (Finite f) \<longleftrightarrow>
     (\<exists>c. x = Finite c \<and> round_to_double (c / 100) = Finite f)"
  by (cases x) (simp_all add: signed_inf_def)

lemma float_truediv_100_Inr: "\<exists>fraction. float_truediv x (Finite 100) = Inr fraction"
  by (cases x) simp_all

lemma float_of_int_1: "float_of_int 1 = Inr (Finite 1)"
  using float_of_int_exact [of 1] by simp

lemma float_of_int_75000: "float_of_int 75000 = Inr (Finite 75000)"
  using float_of_int_exact [of 75000] by simp

lemma per_hire_monthly: "round_to_double (75000 / 12) = Finite 6250"
  using round_to_double_of_int [of 6250] by simp

lemma simulated_metrics_from_eq:
  "simulated_metrics_from base r opex =
     (let new_gross_profit = r - monthly_cogs base;
          new_net_profit = new_gross_profit - opex;
          baseline_net_profit = monthly_revenue base - monthly_cogs base - monthly_opex base;
          base_net_burn = (if baseline_net_profit < 0 then - baseline_net_profit else 0);
          starting_cash =
            (if base_net_burn > 0 then runway base * base_net_burn
             else monthly_revenue base * 12);
          net_cash_burn = (if new_net_profit < 0 then - new_net_profit else 0);
          new_runway =
            (if net_cash_burn > 0 then max 0 (starting_cash div net_cash_burn) else 48)
      in [(''runway'', new_runway), (''monthly_burn'', opex),
              (''monthly_opex'', opex), (''monthly_profit'', new_net_profit),
              (''monthly_revenue'', r),
              (''monthly_cogs'', monthly_cogs base)])"
  by (simp add: simulated_metrics_from_def baseline_starting_cash_def Let_def)


lemma round_to_double_6250: "round_to_double 6250 = Finite 6250"
  using round_to_double_of_int [of 6250] by simp

lemma compute_simulated_metrics_unfold:
  "compute_simulated_metrics payload =
     then_do (float_truediv (price_increase_percentage payload) (Finite 100)) (\<lambda>fraction.
     then_do (float_of_int (monthly_revenue (baseline_metrics payload))) (\<lambda>revenue.
     then_do (int_of_float (float_mul revenue (float_add (Finite 1) fraction))) (\<lambda>new_monthly_revenue.
     then_do (float_of_int (hires payload)) (\<lambda>hired.
     then_do (float_of_int (monthly_opex (baseline_metrics payload))) (\<lambda>opex.
     then_do (float_of_int (marketing_spend_increase payload)) (\<lambda>marketing.
     then_do (int_of_float (float_add (float_add opex (float_mul hired (Finite 6250))) marketing))
       (\<lambda>new_monthly_opex.
     Inr (simulated_metrics_from (baseline_metrics payload) new_monthly_revenue
            new_monthly_opex))))))))"
  unfolding compute_simulated_metrics_def Let_def float_of_int_1 float_of_int_75000 then_do_Inr
    simulated_metrics_from_eq
  by (simp add: round_to_double_6250)

text \<open>
  The arithmetic returns exactly when the percentage is finite and both formulas have a
  finite double-precision value; the two integers are those values, truncated.
\<close>

lemma compute_simulated_metrics_Inr:
  "compute_simulated_metrics payload = Inr metrics \<longleftrightarrow>
     (\<exists>c R E. price_increase_percentage payload = Finite c \<and>
        double_revenue (monthly_revenue (baseline_metrics payload)) c = Finite R \<and>
        double_opex (monthly_opex (baseline_metrics payload)) (hires payload)
          (marketing_spend_increase payload) = Finite E \<and>
        metrics = simulated_metrics_from (baseline_metrics payload) (trunc R) (trunc E))"
  (is "?lhs \<longleftrightarrow> ?rhs")
proof
  assume ?lhs
  then have "\<exists>fraction. float_truediv (price_increase_percentage payload) (Finite 100) = Inr fraction \<and>
    (\<exists>revenue. float_of_int (monthly_revenue (baseline_metrics payload)) = Inr revenue \<and>
    (\<exists>new_monthly_revenue.
       int_of_float (float_mul revenue (float_add (Finite 1) fraction)) = Inr new_monthly_revenue \<and>
    (\<exists>hired. float_of_int (hires payload) = Inr hired \<and>
    (\<exists>opex. float_of_int (monthly_opex (baseline_metrics payload)) = Inr opex \<and>
    (\<exists>marketing. float_of_int (marketing_spend_increase payload) = Inr marketing \<and>
    (\<exists>new_monthly_opex.
       int_of_float (float_add (float_add opex (float_mul hired (Finite 6250))) marketing)
         = Inr new_monthly_opex \<and>
       simulated_metrics_from (baseline_metrics payload) new_monthly_revenue new_monthly_opex
         = metrics))))))"
    unfolding compute_simulated_metrics_unfold then_do_eq_Inr sum.inject .
  then obtain fraction revenue new_monthly_revenue hired opex marketing new_monthly_opex where
    fr: "float_truediv (price_increase_percentage payload) (Finite 100) = Inr fraction"
    and rv: "float_of_int (monthly_revenue (baseline_metrics payload)) = Inr revenue"
    and nr: "int_of_float (float_mul revenue (float_add (Finite 1) fraction)) = Inr new_monthly_revenue"
    and hi: "float_of_int (hires payload) = Inr hired"
    and op: "float_of_int (monthly_opex (baseline_metrics payload)) = Inr opex"
    and mk: "float_of_int (marketing_spend_increase payload) = Inr marketing"
    and no: "int_of_float (float_add (float_add opex (float_mul hired (Finite 6250))) marketing)
               = Inr new_monthly_opex"
    and m: "metrics = simulated_metrics_from (baseline_metrics payload) new_monthly_revenue new_monthly_opex"
    by blast
  from nr obtain R where R: "float_mul revenue (float_add (Finite 1) fraction) = Finite R"
    "new_monthly_revenue = trunc R" by (auto simp: int_of_float_Inr)
  from R(1) obtain rv' g where g: "revenue = Finite rv'" "float_add (Finite 1) fraction = Finite g"
    by (auto simp: float_mul_Finite)
  from g(2) obtain f where f: "fraction = Finite f" by (auto simp: float_add_Finite)
  from fr [unfolded f float_truediv_100_Finite] obtain c where
    c: "price_increase_percentage payload = Finite c" "round_to_double (c / 100) = Finite f"
    by blast
  from rv g(1) have rv': "round_to_double (of_int (monthly_revenue (baseline_metrics payload))) = Finite rv'"
    by (auto simp: float_of_int_Inr)
  have dr: "double_revenue (monthly_revenue (baseline_metrics payload)) c = Finite R"
    using R(1) by (simp add: double_revenue_def rv' c(2) g(1) f)
  from no obtain E where E: "float_add (float_add opex (float_mul hired (Finite 6250))) marketing = Finite E"
    "new_monthly_opex = trunc E" by (auto simp: int_of_float_Inr)
  from op hi mk have
    "opex = round_to_double (of_int (monthly_opex (baseline_metrics payload)))"
    "hired = round_to_double (of_int (hires payload))"
    "marketing = round_to_double (of_int (marketing_spend_increase payload))"
    by (auto simp: float_of_int_Inr)
  then have de: "double_opex (monthly_opex (baseline_metrics payload)) (hires payload)
          (marketing_spend_increase payload) = Finite E"
    using E(1) by (simp add: double_opex_def round_to_double_6250)
  show ?rhs using c(1) dr de m R(2) E(2) by blast
next
  assume ?rhs
  then obtain c R E where c: "price_increase_percentage payload = Finite c"
    and dr: "double_revenue (monthly_revenue (baseline_metrics payload)) c = Finite R"
    and de: "double_opex (monthly_opex (baseline_metrics payload)) (hires payload)
          (marketing_spend_increase payload) = Finite E"
    and m: "metrics = simulated_metrics_from (baseline_metrics payload) (trunc R) (trunc E)"
    by blast
  from dr obtain rv g where rv: "round_to_double (of_int (monthly_revenue (baseline_metrics payload))) = Finite rv"
    and g: "float_add (Finite 1) (round_to_double (c / 100)) = Finite g"
    and R: "round_to_double (rv * g) = Finite R"
    by (auto simp: double_revenue_def float_mul_Finite)
  from de obtain s mk where s: "float_add (round_to_double (of_int (monthly_opex (baseline_metrics payload))))
          (float_mul (round_to_double (of_int (hires payload))) (Finite 6250)) = Finite s"
    and mk: "round_to_double (of_int (marketing_spend_increase payload)) = Finite mk"
    and E: "round_to_double (s + mk) = Finite E"
    by (auto simp: double_opex_def float_add_Finite round_to_double_6250)
  from s obtain op h where op: "round_to_double (of_int (monthly_opex (baseline_metrics payload))) = Finite op"
    and h: "float_mul (round_to_double (of_int (hires payload))) (Finite 6250) = Finite h"
    by (auto simp: float_add_Finite)
  from h obtain hi where hi: "round_to_double (of_int (hires payload)) = Finite hi"
    by (auto simp: float_mul_Finite)
  have 1: "float_truediv (price_increase_percentage payload) (Finite 100) = Inr (round_to_double (c / 100))"
    by (simp add: c)
  have 2: "float_of_int (monthly_revenue (baseline_metrics payload)) = Inr (Finite rv)"
    by (simp add: float_of_int_def rv)
  have 3: "int_of_float (float_mul (Finite rv) (float_add (Finite 1) (round_to_double (c / 100)))) = Inr (trunc R)"
    by (simp add: g R)
  have 4: "float_of_int (hires payload) = Inr (Finite hi)" by (simp add: float_of_int_def hi)
  have 5: "float_of_int (monthly_opex (baseline_metrics payload)) = Inr (Finite op)"
    by (simp add: float_of_int_def op)
  have 6: "float_of_int (marketing_spend_increase payload) = Inr (Finite mk)"
    by (simp add: float_of_int_def mk)
  have 7: "int_of_float (float_add (float_add (Finite op) (float_mul (Finite hi) (Finite 6250))) (Finite mk))
      = Inr (trunc E)"
    using s E by (simp add: op hi)
  show ?lhs
    unfolding compute_simulated_metrics_unfold 1 2 then_do_Inr 3 4 5 6 7 m ..
qed


lemma simulate_scenario_Inr:
  "simulate_scenario ev payload stats = (Inr response, stats') \<longleftrightarrow>
     (\<exists>metrics snapshot. compute_simulated_metrics payload = Inr metrics \<and>
        log_flexprice_event ev ''scenario_simulated'' stats = (Inr snapshot, stats') \<and>
        response = \<lparr>simulated_metrics = metrics, usage_stats = snapshot\<rparr>)"
  by (cases "log_flexprice_event ev ''scenario_simulated'' stats")
     (auto simp: simulate_scenario_def split: sum.splits)

lemma trunc_of_int: "trunc (of_int n) = n"
  by (simp add: trunc_def)

lemma trunc_eqI: "0 \<le> a \<Longrightarrow> of_int n \<le> a \<Longrightarrow> a < of_int n + 1 \<Longrightarrow> trunc a = n"
  by (simp add: trunc_def floor_unique)

subsection \<open>The example scenarios, evaluated\<close>

lemma round_tenth: "round_to_double (10 / 100) = Finite (3602879701896397 / 36028797018963968)"
  using round_to_double_eqI [of "- 4" "10 / 100" 7205759403792794] by (simp add: pow2_def)

lemma round_one_and_tenth:
  "round_to_double (1 + 3602879701896397 / 36028797018963968) =
     Finite (2476979795053773 / 2251799813685248)"
  using round_to_double_eqI [of 0 "1 + 3602879701896397 / 36028797018963968" 4953959590107546]
  by (simp add: pow2_def)

lemma round_revenue_tenth:
  "round_to_double (220000 * (2476979795053773 / 2251799813685248)) =
     Finite (8315056685056001 / 34359738368)"
  using round_to_double_eqI [of 17 "220000 * (2476979795053773 / 2251799813685248)" 8315056685056001]
  by (simp add: pow2_def)

lemma round_fifteen_hundredths:
  "round_to_double (15 / 100) = Finite (5404319552844595 / 36028797018963968)"
  using round_to_double_eqI [of "- 3" "15 / 100" 5404319552844595] by (simp add: pow2_def)

lemma round_one_and_fifteen_hundredths:
  "round_to_double (1 + 5404319552844595 / 36028797018963968) =
     Finite (2589569785738035 / 2251799813685248)"
  using round_to_double_eqI [of 0 "1 + 5404319552844595 / 36028797018963968" 5179139571476070]
  by (simp add: pow2_def)

lemma round_revenue_fifteen_hundredths:
  "round_to_double (220000 * (2589569785738035 / 2251799813685248)) =
     Finite (8693013807103999 / 34359738368)"
  using round_to_double_eqI [of 17 "220000 * (2589569785738035 / 2251799813685248)" 8693013807103999]
  by (simp add: pow2_def)

lemma round_numeral: "\<bar>numeral k :: int\<bar> < 2 ^ 53 \<Longrightarrow> round_to_double (numeral k) = Finite (numeral k)"
  using round_to_double_of_int [of "numeral k"] by simp

lemma round_220000: "round_to_double (of_int 220000) = Finite 220000"
  using round_to_double_of_int [of 220000] by simp

lemma double_revenue_example: "double_revenue 220000 10 = Finite (8315056685056001 / 34359738368)"
  unfolding double_revenue_def
  by (simp only: round_220000 round_tenth float_add.simps round_one_and_tenth float_mul.simps
      round_revenue_tenth)

lemma double_revenue_fifteen: "double_revenue 220000 15 = Finite (8693013807103999 / 34359738368)"
  unfolding double_revenue_def
  by (simp only: round_220000 round_fifteen_hundredths float_add.simps
      round_one_and_fifteen_hundredths float_mul.simps round_revenue_fifteen_hundredths)


lemma double_opex_example: "double_opex 150000 2 10000 = Finite 172500"
  unfolding double_opex_def
  using round_to_double_of_int [of 150000] round_to_double_of_int [of 2]
    round_to_double_of_int [of 10000] round_to_double_of_int [of 12500]
    round_to_double_of_int [of 162500] round_to_double_of_int [of 172500]
  by (simp add: round_to_double_6250)

lemma double_opex_unchanged: "double_opex 150000 0 0 = Finite 150000"
  unfolding double_opex_def
  using round_to_double_of_int [of 150000] round_to_double_of_int [of 0]
  by (simp add: round_to_double_6250)


lemma trunc_revenue_example: "trunc (8315056685056001 / 34359738368) = 242000"
  by (rule trunc_eqI) simp_all

lemma trunc_revenue_fifteen: "trunc (8693013807103999 / 34359738368) = 252999"
  by (rule trunc_eqI) simp_all

lemma compute_example:
  "compute_simulated_metrics example_payload =
     Inr [(''runway'', 48), (''monthly_burn'', 172500), (''monthly_opex'', 172500),
          (''monthly_profit'', 29500), (''monthly_revenue'', 242000), (''monthly_cogs'', 40000)]"
  unfolding compute_simulated_metrics_Inr
  by (rule exI [of _ 10], rule exI [of _ "8315056685056001 / 34359738368"], rule exI [of _ 172500])
     (simp add: example_payload_def default_baseline_def double_revenue_example double_opex_example
        trunc_revenue_example trunc_of_int [of 172500, simplified]
        simulated_metrics_from_def baseline_starting_cash_def)

lemma compute_fifteen_percent:
  "compute_simulated_metrics fifteen_percent_payload =
     Inr [(''runway'', 48), (''monthly_burn'', 150000), (''monthly_opex'', 150000),
          (''monthly_profit'', 62999), (''monthly_revenue'', 252999), (''monthly_cogs'', 40000)]"
  unfolding compute_simulated_metrics_Inr
  by (rule exI [of _ 15], rule exI [of _ "8693013807103999 / 34359738368"], rule exI [of _ 150000])
     (simp add: fifteen_percent_payload_def default_baseline_def double_revenue_fifteen
        double_opex_unchanged trunc_revenue_fifteen trunc_of_int [of 150000, simplified]
        simulated_metrics_from_def baseline_starting_cash_def)


lemma log_scenario_simulated_local:
  "log_flexprice_event local_env ''scenario_simulated'' USAGE_STATS =
     (Inr (JObject [(JStr ''scenarios_simulated'', JInt 1), (JStr ''reports_exported'', JInt 0),
            (JStr ''ai_price_calculations'', JInt 0)]),
      [(JStr ''scenarios_simulated'', JInt 1), (JStr ''reports_exported'', JInt 0),
       (JStr ''ai_price_calculations'', JInt 0)])"
  by (simp add: log_flexprice_event_def increment_def USAGE_STATS_def
      get_usage_stats_def local_env_def configured_def)

lemma round_to_double_nonneg:
  assumes "0 \<le> x" "round_to_double x = Finite y"
  shows "0 \<le> y"
proof (cases "x = 0")
  case True
  with assms(2) show ?thesis by (simp add: round_to_double_def)
next
  case False
  have "0 \<le> of_int (round_half_even (x / quantum x)) * quantum x"
    using quantum_pos [of x] assms(1) round_half_even_nonneg [of "x / quantum x"]
    by (intro mult_nonneg_nonneg) simp_all
  then show ?thesis
    using assms(2) unfolding round_to_double_unfold [OF False] by (simp split: if_splits)
qed

lemma double_revenue_parts:
  assumes "double_revenue revenue c = Finite R"
  shows "\<exists>a f g. round_to_double (of_int revenue) = Finite a \<and>
           round_to_double (c / 100) = Finite f \<and> round_to_double (1 + f) = Finite g \<and>
           round_to_double (a * g) = Finite R"
proof -
  from assms have "\<exists>a g. round_to_double (of_int revenue) = Finite a \<and>
      float_add (Finite 1) (round_to_double (c / 100)) = Finite g \<and>
      round_to_double (a * g) = Finite R"
    unfolding double_revenue_def by (simp only: float_mul_Finite)
  then obtain a g where a: "round_to_double (of_int revenue) = Finite a"
    and g: "float_add (Finite 1) (round_to_double (c / 100)) = Finite g"
    and R: "round_to_double (a * g) = Finite R" by blast
  from g have "\<exists>u f. Finite 1 = Finite u \<and> round_to_double (c / 100) = Finite f \<and>
      round_to_double (u + f) = Finite g"
    by (simp only: float_add_Finite)
  then obtain f where f: "round_to_double (c / 100) = Finite f"
    and g': "round_to_double (1 + f) = Finite g" by auto
  show ?thesis using a f g' R by blast
qed

lemma double_revenue_nonneg:
  assumes "0 \<le> revenue" "0 \<le> c" "double_revenue revenue c = Finite R"
  shows "0 \<le> R"
proof -
  from double_revenue_parts [OF assms(3)] obtain a f g where
    a: "round_to_double (of_int revenue) = Finite a"
    and f: "round_to_double (c / 100) = Finite f"
    and g: "round_to_double (1 + f) = Finite g"
    and R: "round_to_double (a * g) = Finite R" by blast
  have "(0::rat) \<le> of_int revenue" using assms(1) by simp
  then have a0: "0 \<le> a" using a by (rule round_to_double_nonneg)
  have "0 \<le> c / 100" using assms(2) by simp
  then have f0: "0 \<le> f" using f by (rule round_to_double_nonneg)
  have "0 \<le> 1 + f" using f0 by simp
  then have g0: "0 \<le> g" using g by (rule round_to_double_nonneg)
  have "0 \<le> a * g" using a0 g0 by (rule mult_nonneg_nonneg)
  then show ?thesis using R by (rule round_to_double_nonneg)
qed

lemma double_opex_exact:
  assumes "0 \<le> opex" "0 \<le> hired" "0 \<le> marketing"
    and "opex + 6250 * hired + marketing < 2 ^ 53"
  shows "double_opex opex hired marketing = Finite (of_int (opex + 6250 * hired + marketing))"
proof -
  have o: "round_to_double (of_int opex) = Finite (of_int opex)"
    using assms by (intro round_to_double_of_int) simp
  have h: "round_to_double (of_int hired) = Finite (of_int hired)"
    using assms by (intro round_to_double_of_int) simp
  have m: "round_to_double (of_int marketing) = Finite (of_int marketing)"
    using assms by (intro round_to_double_of_int) simp
  have "round_to_double (of_int (hired * 6250)) = Finite (of_int (hired * 6250))"
    using assms by (intro round_to_double_of_int) simp
  then have hc: "round_to_double (of_int hired * 6250) = Finite (of_int (hired * 6250))"
    by simp
  have "round_to_double (of_int (opex + hired * 6250)) = Finite (of_int (opex + hired * 6250))"
    using assms by (intro round_to_double_of_int) simp
  then have s: "round_to_double (of_int opex + of_int (hired * 6250)) = Finite (of_int (opex + hired * 6250))"
    by (simp only: of_int_add)
  have "round_to_double (of_int (opex + hired * 6250 + marketing)) =
      Finite (of_int (opex + hired * 6250 + marketing))"
    using assms by (intro round_to_double_of_int) simp
  then have t: "round_to_double (of_int (opex + hired * 6250) + of_int marketing) =
      Finite (of_int (opex + hired * 6250 + marketing))"
    by (simp only: of_int_add)
  have "double_opex opex hired marketing = Finite (of_int (opex + hired * 6250 + marketing))"
    unfolding double_opex_def per_hire_monthly o h m float_mul.simps hc float_add.simps s t ..
  then show ?thesis by (simp add: mult.commute)
qed

lemma round_to_double_bounded:
  assumes "\<bar>x\<bar> \<le> 2 ^ k" "k \<le> 1022"
  shows "\<exists>y. round_to_double x = Finite y \<and> \<bar>y\<bar> \<le> 2 ^ Suc k"
proof -
  have "(2::rat) ^ k = pow2 (int k)" by (simp add: pow2_nat)
  also have "\<dots> < pow2 1023" using assms(2) by (intro pow2_strict_mono) simp
  finally have "\<bar>x\<bar> < pow2 1023" using assms(1) by linarith
  from round_to_double_finite [OF this] obtain y where
    "round_to_double x = Finite y" "\<bar>y\<bar> \<le> 2 * \<bar>x\<bar>" by blast
  then show ?thesis using assms(1) by auto
qed

lemma double_revenue_finite:
  assumes "\<bar>revenue\<bar> < 2 ^ 53" "\<bar>c\<bar> \<le> 2 ^ 64"
  shows "\<exists>R. double_revenue revenue c = Finite R"
proof -
  have a: "round_to_double (of_int revenue) = Finite (of_int revenue)"
    using assms(1) by (rule round_to_double_of_int)
  have "\<bar>c / 100\<bar> \<le> 2 ^ 64" using assms(2) by simp
  from round_to_double_bounded [OF this] obtain f where
    f: "round_to_double (c / 100) = Finite f" "\<bar>f\<bar> \<le> 2 ^ Suc 64" by auto
  have "\<bar>1 + f\<bar> \<le> 2 ^ 66" using f(2) by simp
  from round_to_double_bounded [OF this] obtain g where
    g: "round_to_double (1 + f) = Finite g" "\<bar>g\<bar> \<le> 2 ^ Suc 66" by auto
  have "\<bar>of_int revenue :: rat\<bar> \<le> 2 ^ 53"
  proof -
    have "(of_int \<bar>revenue\<bar> :: rat) \<le> of_int (2 ^ 53)" using assms(1) by (simp only: of_int_le_iff)
    then show ?thesis by simp
  qed
  then have "\<bar>of_int revenue * g\<bar> \<le> 2 ^ 53 * 2 ^ Suc 66"
    unfolding abs_mult using g(2) by (intro mult_mono) simp_all
  also have "\<dots> = (2::rat) ^ 120" by simp
  finally have "\<bar>of_int revenue * g\<bar> \<le> 2 ^ 120" .
  from round_to_double_bounded [OF this] obtain R where
    "round_to_double (of_int revenue * g) = Finite R" by auto
  then show ?thesis unfolding double_revenue_def a f(1) float_add.simps g(1) float_mul.simps by blast
qed

lemma log_scenario_simulated:
  assumes "dict_get stats (JStr ''scenarios_simulated'') = Some (JInt n)"
  shows "log_flexprice_event ev ''scenario_simulated'' stats =
           get_usage_stats ev (dict_set stats (JStr ''scenarios_simulated'') (JInt (n + 1)))"
  using assms by (simp add: log_flexprice_event_def increment_Some)

lemma simulated_metrics_from_lookup:
  "map_of (simulated_metrics_from base r e) ''monthly_revenue'' = Some r"
  "map_of (simulated_metrics_from base r e) ''monthly_opex'' = Some e"
  "map_of (simulated_metrics_from base r e) ''monthly_burn'' = Some e"
  "map_of (simulated_metrics_from base r e) ''monthly_profit'' = Some (r - monthly_cogs base - e)"
  "map_of (simulated_metrics_from base r e) ''monthly_cogs'' = Some (monthly_cogs base)"
  "map_of (simulated_metrics_from base r e) ''runway'' =
     Some (if 0 \<le> r - monthly_cogs base - e then 48
           else max 0 (baseline_starting_cash base div (- (r - monthly_cogs base - e))))"
  by (simp_all add: simulated_metrics_from_def Let_def)

lemma simulate_scenario_returns:
  assumes "simulate_scenario ev payload stats = (Inr response, stats')"
  shows "\<exists>c R E. price_increase_percentage payload = Finite c \<and>
           double_revenue (monthly_revenue (baseline_metrics payload)) c = Finite R \<and>
           double_opex (monthly_opex (baseline_metrics payload)) (hires payload)
             (marketing_spend_increase payload) = Finite E \<and>
           simulated_metrics response =
             simulated_metrics_from (baseline_metrics payload) (trunc R) (trunc E)"
proof -
  from assms obtain metrics snapshot where
    m: "compute_simulated_metrics payload = Inr metrics"
    and r: "response = \<lparr>simulated_metrics = metrics, usage_stats = snapshot\<rparr>"
    unfolding simulate_scenario_Inr by blast
  from m [unfolded compute_simulated_metrics_Inr] r show ?thesis by auto
qed

lemma simulate_example:
  "simulate_scenario local_env example_payload USAGE_STATS =
     (Inr \<lparr>simulated_metrics =
             [(''runway'', 48), (''monthly_burn'', 172500), (''monthly_opex'', 172500),
              (''monthly_profit'', 29500), (''monthly_revenue'', 242000),
              (''monthly_cogs'', 40000)],
           usage_stats =
             JObject [(JStr ''scenarios_simulated'', JInt 1), (JStr ''reports_exported'', JInt 0),
                      (JStr ''ai_price_calculations'', JInt 0)]\<rparr>,
      [(JStr ''scenarios_simulated'', JInt 1), (JStr ''reports_exported'', JInt 0),
       (JStr ''ai_price_calculations'', JInt 0)])"
  by (simp add: simulate_scenario_def compute_example log_scenario_simulated_local)


text \<open>
  Claim C9. In every result of \<^verbatim>\<open>simulate_scenario\<close> the fields \<^verbatim>\<open>monthly_burn\<close> and
  \<^verbatim>\<open>monthly_opex\<close> hold the same integer, the new monthly opex of line 98.
\<close>

theorem burn_is_opex:
  assumes "simulate_scenario ev payload stats = (Inr response, stats')"
  shows "\<exists>new_monthly_opex E.
           map_of (simulated_metrics response) ''monthly_burn'' = Some new_monthly_opex \<and>
           map_of (simulated_metrics response) ''monthly_opex'' = Some new_monthly_opex \<and>
           double_opex (monthly_opex (baseline_metrics payload)) (hires payload)
             (marketing_spend_increase payload) = Finite E \<and>
           new_monthly_opex = trunc E"
proof -
  from simulate_scenario_returns [OF assms] obtain c R E where
    e: "double_opex (monthly_opex (baseline_metrics payload)) (hires payload)
          (marketing_spend_increase payload) = Finite E"
    and m: "simulated_metrics response =
          simulated_metrics_from (baseline_metrics payload) (trunc R) (trunc E)" by blast
  show ?thesis
    using e by (intro exI [of _ "trunc E"] exI [of _ E]) (simp add: m simulated_metrics_from_lookup)
qed

theorem burn_is_opex_witness:
  "\<exists>new_monthly_opex E.
     map_of [(''runway'', 48), (''monthly_burn'', 172500), (''monthly_opex'', 172500),
             (''monthly_profit'', 29500), (''monthly_revenue'', 242000),
             (''monthly_cogs'', 40000 :: int)] ''monthly_burn'' = Some new_monthly_opex \<and>
     map_of [(''runway'', 48), (''monthly_burn'', 172500), (''monthly_opex'', 172500),
             (''monthly_profit'', 29500), (''monthly_revenue'', 242000),
             (''monthly_cogs'', 40000 :: int)] ''monthly_opex'' = Some new_monthly_opex \<and>
     double_opex 150000 2 10000 = Finite E \<and> new_monthly_opex = trunc E"
  using burn_is_opex [OF simulate_example]
  by (simp add: example_payload_def default_baseline_def)



lemma simulate_fifteen_percent:
  "simulate_scenario local_env fifteen_percent_payload USAGE_STATS =
     (Inr \<lparr>simulated_metrics =
             [(''runway'', 48), (''monthly_burn'', 150000), (''monthly_opex'', 150000),
              (''monthly_profit'', 62999), (''monthly_revenue'', 252999),
              (''monthly_cogs'', 40000)],
           usage_stats =
             JObject [(JStr ''scenarios_simulated'', JInt 1), (JStr ''reports_exported'', JInt 0),
                      (JStr ''ai_price_calculations'', JInt 0)]\<rparr>,
      [(JStr ''scenarios_simulated'', JInt 1), (JStr ''reports_exported'', JInt 0),
       (JStr ''ai_price_calculations'', JInt 0)])"
  by (simp add: simulate_scenario_def compute_fifteen_percent log_scenario_simulated_local)

lemma simulate_scenario_total:
  assumes "price_increase_percentage payload = Finite c" "\<bar>c\<bar> \<le> 2 ^ 64"
    and "\<bar>monthly_revenue (baseline_metrics payload)\<bar> < 2 ^ 53"
    and "0 \<le> monthly_opex (baseline_metrics payload)" "0 \<le> hires payload"
      "0 \<le> marketing_spend_increase payload"
    and "monthly_opex (baseline_metrics payload) + 6250 * hires payload
           + marketing_spend_increase payload < 2 ^ 53"
    and "log_flexprice_event ev ''scenario_simulated'' stats = (Inr snapshot, stats')"
  shows "\<exists>response. simulate_scenario ev payload stats = (Inr response, stats')"
proof -
  from double_revenue_finite [OF assms(3,2)] obtain R where
    R: "double_revenue (monthly_revenue (baseline_metrics payload)) c = Finite R" by blast
  note E = double_opex_exact [OF assms(4,5,6,7)]
  have "compute_simulated_metrics payload =
      Inr (simulated_metrics_from (baseline_metrics payload) (trunc R)
             (trunc (of_int (monthly_opex (baseline_metrics payload) + 6250 * hires payload
                + marketing_spend_increase payload))))"
    unfolding compute_simulated_metrics_Inr using assms(1) R E by blast
  then show ?thesis
    unfolding simulate_scenario_Inr using assms(8) by blast
qed


lemma simulate_scenario_fields:
  assumes ret: "simulate_scenario ev payload stats = (Inr response, stats')"
  shows "\<exists>c R E. price_increase_percentage payload = Finite c \<and>
         double_revenue (monthly_revenue (baseline_metrics payload)) c = Finite R \<and>
         double_opex (monthly_opex (baseline_metrics payload)) (hires payload)
           (marketing_spend_increase payload) = Finite E \<and>
         map_of (simulated_metrics response) ''monthly_revenue'' = Some (trunc R) \<and>
         map_of (simulated_metrics response) ''monthly_opex'' = Some (trunc E) \<and>
         map_of (simulated_metrics response) ''monthly_profit'' =
           Some (trunc R - monthly_cogs (baseline_metrics payload) - trunc E) \<and>
         (0 \<le> monthly_revenue (baseline_metrics payload) \<and> 0 \<le> c \<longrightarrow> trunc R = \<lfloor>R\<rfloor>) \<and>
         (0 \<le> monthly_opex (baseline_metrics payload) \<and> 0 \<le> hires payload \<and>
          0 \<le> marketing_spend_increase payload \<and>
          monthly_opex (baseline_metrics payload) + 6250 * hires payload
            + marketing_spend_increase payload < 2 ^ 53 \<longrightarrow>
            trunc E = monthly_opex (baseline_metrics payload) + 6250 * hires payload
              + marketing_spend_increase payload)"
proof -
  from simulate_scenario_returns [OF ret] obtain c R E where
    c: "price_increase_percentage payload = Finite c"
    and R: "double_revenue (monthly_revenue (baseline_metrics payload)) c = Finite R"
    and E: "double_opex (monthly_opex (baseline_metrics payload)) (hires payload)
          (marketing_spend_increase payload) = Finite E"
    and m: "simulated_metrics response =
          simulated_metrics_from (baseline_metrics payload) (trunc R) (trunc E)" by blast
  have floor: "0 \<le> monthly_revenue (baseline_metrics payload) \<and> 0 \<le> c \<longrightarrow> trunc R = \<lfloor>R\<rfloor>"
  proof
    assume a: "0 \<le> monthly_revenue (baseline_metrics payload) \<and> 0 \<le> c"
    have "0 \<le> R" using a [THEN conjunct1] a [THEN conjunct2] R by (rule double_revenue_nonneg)
    then show "trunc R = \<lfloor>R\<rfloor>" by (simp add: trunc_def)
  qed
  have exact: "0 \<le> monthly_opex (baseline_metrics payload) \<and> 0 \<le> hires payload \<and>
          0 \<le> marketing_spend_increase payload \<and>
          monthly_opex (baseline_metrics payload) + 6250 * hires payload
            + marketing_spend_increase payload < 2 ^ 53 \<longrightarrow>
            trunc E = monthly_opex (baseline_metrics payload) + 6250 * hires payload
              + marketing_spend_increase payload"
  proof
    assume a: "0 \<le> monthly_opex (baseline_metrics payload) \<and> 0 \<le> hires payload \<and>
          0 \<le> marketing_spend_increase payload \<and>
          monthly_opex (baseline_metrics payload) + 6250 * hires payload
            + marketing_spend_increase payload < 2 ^ 53"
    have "double_opex (monthly_opex (baseline_metrics payload)) (hires payload)
          (marketing_spend_increase payload) =
        Finite (of_int (monthly_opex (baseline_metrics payload) + 6250 * hires payload
            + marketing_spend_increase payload))"
      using a [THEN conjunct1] a [THEN conjunct2, THEN conjunct1]
        a [THEN conjunct2, THEN conjunct2, THEN conjunct1]
        a [THEN conjunct2, THEN conjunct2, THEN conjunct2]
      by (rule double_opex_exact)
    then have "Finite E = Finite (of_int (monthly_opex (baseline_metrics payload) + 6250 * hires payload
            + marketing_spend_increase payload))" by (simp only: E)
    then have "E = of_int (monthly_opex (baseline_metrics payload) + 6250 * hires payload
            + marketing_spend_increase payload)" by (simp only: pyfloat.inject)
    then show "trunc E = monthly_opex (baseline_metrics payload) + 6250 * hires payload
              + marketing_spend_increase payload"
      by (simp only: trunc_of_int)
  qed
  have r: "map_of (simulated_metrics response) ''monthly_revenue'' = Some (trunc R)"
    by (simp only: m simulated_metrics_from_lookup)
  have o: "map_of (simulated_metrics response) ''monthly_opex'' = Some (trunc E)"
    by (simp only: m simulated_metrics_from_lookup)
  have p: "map_of (simulated_metrics response) ''monthly_profit'' =
           Some (trunc R - monthly_cogs (baseline_metrics payload) - trunc E)"
    by (simp only: m simulated_metrics_from_lookup)
  show ?thesis
    by (rule exI [of _ c], rule exI [of _ R], rule exI [of _ E])
       (intro conjI c R E r o p floor exact)
qed

lemma simulate_example_any:
  assumes "log_flexprice_event ev ''scenario_simulated'' stats = (Inr snapshot, stats')"
  shows "simulate_scenario ev example_payload stats =
        (Inr \<lparr>simulated_metrics =
                [(''runway'', 48), (''monthly_burn'', 172500), (''monthly_opex'', 172500),
                 (''monthly_profit'', 29500), (''monthly_revenue'', 242000),
                 (''monthly_cogs'', 40000)],
              usage_stats = snapshot\<rparr>,
         stats')"
  by (simp add: simulate_scenario_def compute_example assms)

text \<open>
  Claim C1, amended. When \<^verbatim>\<open>simulate_scenario\<close> returns, the percentage is finite,
  \<^verbatim>\<open>monthly_revenue\<close> and \<^verbatim>\<open>monthly_opex\<close> are the double-precision values of the two
  formulas truncated toward zero, and \<^verbatim>\<open>monthly_profit\<close> is their difference less the
  cost of goods. The truncated revenue is the floor of the double-precision value for a
  non-negative baseline revenue and percentage; the opex is exactly
  \<open>opex + 6250 * hires + marketing\<close> when these are non-negative and below \<open>2^53\<close>
  together. It returns on such inputs, for a percentage up to \<open>2^64\<close> and a revenue
  below \<open>2^53\<close> in magnitude, when logging the event returns. On the default baseline
  with 2 hires, 10000 of marketing and 10 percent it gives 242000, 172500 and 29500.
\<close>

theorem simulate_scenario_metrics:
  "(\<forall>response stats'. simulate_scenario ev payload stats = (Inr response, stats') \<longrightarrow>
      (\<exists>c R E. price_increase_percentage payload = Finite c \<and>
         double_revenue (monthly_revenue (baseline_metrics payload)) c = Finite R \<and>
         double_opex (monthly_opex (baseline_metrics payload)) (hires payload)
           (marketing_spend_increase payload) = Finite E \<and>
         map_of (simulated_metrics response) ''monthly_revenue'' = Some (trunc R) \<and>
         map_of (simulated_metrics response) ''monthly_opex'' = Some (trunc E) \<and>
         map_of (simulated_metrics response) ''monthly_profit'' =
           Some (trunc R - monthly_cogs (baseline_metrics payload) - trunc E) \<and>
         (0 \<le> monthly_revenue (baseline_metrics payload) \<and> 0 \<le> c \<longrightarrow> trunc R = \<lfloor>R\<rfloor>) \<and>
         (0 \<le> monthly_opex (baseline_metrics payload) \<and> 0 \<le> hires payload \<and>
          0 \<le> marketing_spend_increase payload \<and>
          monthly_opex (baseline_metrics payload) + 6250 * hires payload
            + marketing_spend_increase payload < 2 ^ 53 \<longrightarrow>
            trunc E = monthly_opex (baseline_metrics payload) + 6250 * hires payload
              + marketing_spend_increase payload))) \<and>
   ((\<exists>c. price_increase_percentage payload = Finite c \<and> \<bar>c\<bar> \<le> 2 ^ 64) \<and>
    \<bar>monthly_revenue (baseline_metrics payload)\<bar> < 2 ^ 53 \<and>
    0 \<le> monthly_opex (baseline_metrics payload) \<and> 0 \<le> hires payload \<and>
    0 \<le> marketing_spend_increase payload \<and>
    monthly_opex (baseline_metrics payload) + 6250 * hires payload
      + marketing_spend_increase payload < 2 ^ 53 \<and>
    (\<exists>snapshot stats'. log_flexprice_event ev ''scenario_simulated'' stats = (Inr snapshot, stats'))
    \<longrightarrow> (\<exists>response stats'. simulate_scenario ev payload stats = (Inr response, stats'))) \<and>
   (\<forall>snapshot stats'.
      log_flexprice_event ev ''scenario_simulated'' stats = (Inr snapshot, stats') \<longrightarrow>
      simulate_scenario ev example_payload stats =
        (Inr \<lparr>simulated_metrics =
                [(''runway'', 48), (''monthly_burn'', 172500), (''monthly_opex'', 172500),
                 (''monthly_profit'', 29500), (''monthly_revenue'', 242000),
                 (''monthly_cogs'', 40000)],
              usage_stats = snapshot\<rparr>,
         stats'))"
proof (intro conjI allI impI)
  fix response stats'
  assume "simulate_scenario ev payload stats = (Inr response, stats')"
  then show "\<exists>c R E. price_increase_percentage payload = Finite c \<and>
         double_revenue (monthly_revenue (baseline_metrics payload)) c = Finite R \<and>
         double_opex (monthly_opex (baseline_metrics payload)) (hires payload)
           (marketing_spend_increase payload) = Finite E \<and>
         map_of (simulated_metrics response) ''monthly_revenue'' = Some (trunc R) \<and>
         map_of (simulated_metrics response) ''monthly_opex'' = Some (trunc E) \<and>
         map_of (simulated_metrics response) ''monthly_profit'' =
           Some (trunc R - monthly_cogs (baseline_metrics payload) - trunc E) \<and>
         (0 \<le> monthly_revenue (baseline_metrics payload) \<and> 0 \<le> c \<longrightarrow> trunc R = \<lfloor>R\<rfloor>) \<and>
         (0 \<le> monthly_opex (baseline_metrics payload) \<and> 0 \<le> hires payload \<and>
          0 \<le> marketing_spend_increase payload \<and>
          monthly_opex (baseline_metrics payload) + 6250 * hires payload
            + marketing_spend_increase payload < 2 ^ 53 \<longrightarrow>
            trunc E = monthly_opex (baseline_metrics payload) + 6250 * hires payload
              + marketing_spend_increase payload)"
    by (rule simulate_scenario_fields)
next
  assume "(\<exists>c. price_increase_percentage payload = Finite c \<and> \<bar>c\<bar> \<le> 2 ^ 64) \<and>
    \<bar>monthly_revenue (baseline_metrics payload)\<bar> < 2 ^ 53 \<and>
    0 \<le> monthly_opex (baseline_metrics payload) \<and> 0 \<le> hires payload \<and>
    0 \<le> marketing_spend_increase payload \<and>
    monthly_opex (baseline_metrics payload) + 6250 * hires payload
      + marketing_spend_increase payload < 2 ^ 53 \<and>
    (\<exists>snapshot stats'. log_flexprice_event ev ''scenario_simulated'' stats = (Inr snapshot, stats'))"
  then obtain c snapshot stats' where
    h: "price_increase_percentage payload = Finite c" "\<bar>c\<bar> \<le> 2 ^ 64"
      "\<bar>monthly_revenue (baseline_metrics payload)\<bar> < 2 ^ 53"
      "0 \<le> monthly_opex (baseline_metrics payload)" "0 \<le> hires payload"
      "0 \<le> marketing_spend_increase payload"
      "monthly_opex (baseline_metrics payload) + 6250 * hires payload
         + marketing_spend_increase payload < 2 ^ 53"
      "log_flexprice_event ev ''scenario_simulated'' stats = (Inr snapshot, stats')"
    by (elim conjE exE)
  from simulate_scenario_total [OF h] obtain response where
    "simulate_scenario ev payload stats = (Inr response, stats')" by (elim exE)
  then show "\<exists>response stats'. simulate_scenario ev payload stats = (Inr response, stats')"
    by (intro exI)
next
  fix snapshot stats'
  assume "log_flexprice_event ev ''scenario_simulated'' stats = (Inr snapshot, stats')"
  then show "simulate_scenario ev example_payload stats =
        (Inr \<lparr>simulated_metrics =
                [(''runway'', 48), (''monthly_burn'', 172500), (''monthly_opex'', 172500),
                 (''monthly_profit'', 29500), (''monthly_revenue'', 242000),
                 (''monthly_cogs'', 40000)],
              usage_stats = snapshot\<rparr>,
         stats')"
    by (rule simulate_example_any)
qed

theorem simulate_scenario_metrics_witness:
  "simulate_scenario local_env example_payload USAGE_STATS =
     (Inr \<lparr>simulated_metrics =
             [(''runway'', 48), (''monthly_burn'', 172500), (''monthly_opex'', 172500),
              (''monthly_profit'', 29500), (''monthly_revenue'', 242000),
              (''monthly_cogs'', 40000)],
           usage_stats =
             JObject [(JStr ''scenarios_simulated'', JInt 1), (JStr ''reports_exported'', JInt 0),
                      (JStr ''ai_price_calculations'', JInt 0)]\<rparr>,
      [(JStr ''scenarios_simulated'', JInt 1), (JStr ''reports_exported'', JInt 0),
       (JStr ''ai_price_calculations'', JInt 0)]) \<and>
   (\<exists>R E. double_revenue 220000 10 = Finite R \<and> double_opex 150000 2 10000 = Finite E \<and>
      trunc R = 242000 \<and> trunc R = \<lfloor>R\<rfloor> \<and> trunc E = 172500)"
proof -
  note t = simulate_scenario_metrics [of local_env example_payload USAGE_STATS]
  have s: "simulate_scenario local_env example_payload USAGE_STATS =
     (Inr \<lparr>simulated_metrics =
             [(''runway'', 48), (''monthly_burn'', 172500), (''monthly_opex'', 172500),
              (''monthly_profit'', 29500), (''monthly_revenue'', 242000),
              (''monthly_cogs'', 40000)],
           usage_stats =
             JObject [(JStr ''scenarios_simulated'', JInt 1), (JStr ''reports_exported'', JInt 0),
                      (JStr ''ai_price_calculations'', JInt 0)]\<rparr>,
      [(JStr ''scenarios_simulated'', JInt 1), (JStr ''reports_exported'', JInt 0),
       (JStr ''ai_price_calculations'', JInt 0)])"
    using t [THEN conjunct2, THEN conjunct2, rule_format, OF log_scenario_simulated_local] .
  have fields: "price_increase_percentage example_payload = Finite 10"
    "monthly_revenue (baseline_metrics example_payload) = 220000"
    "monthly_opex (baseline_metrics example_payload) = 150000"
    "hires example_payload = 2" "marketing_spend_increase example_payload = 10000"
    by (simp_all add: example_payload_def default_baseline_def)
  from t [THEN conjunct1, rule_format, OF s] obtain c R E where
    c: "Finite (10 :: rat) = Finite c"
    and R: "double_revenue 220000 c = Finite R"
    and E: "double_opex 150000 2 10000 = Finite E"
    and r: "map_of [(''runway'', 48), (''monthly_burn'', 172500), (''monthly_opex'', 172500),
              (''monthly_profit'', 29500), (''monthly_revenue'', 242000),
              (''monthly_cogs'', 40000 :: int)] ''monthly_revenue'' = Some (trunc R)"
    and fl: "0 \<le> (220000 :: int) \<and> 0 \<le> c \<longrightarrow> trunc R = \<lfloor>R\<rfloor>"
    and ex: "0 \<le> (150000 :: int) \<and> 0 \<le> (2 :: int) \<and> 0 \<le> (10000 :: int) \<and>
        (150000 :: int) + 6250 * 2 + 10000 < 2 ^ 53 \<longrightarrow> trunc E = 150000 + 6250 * 2 + 10000"
    unfolding fields simulate_response.simps by (elim exE conjE)
  have c10: "c = 10" using c by simp
  have 1: "double_revenue 220000 10 = Finite R" using R by (simp only: c10)
  have 2: "trunc R = 242000" using r by simp
  have 3: "trunc R = \<lfloor>R\<rfloor>" using fl by (simp add: c10)
  have 4: "trunc E = 172500" using ex by simp
  have "\<exists>R E. double_revenue 220000 10 = Finite R \<and> double_opex 150000 2 10000 = Finite E \<and>
      trunc R = 242000 \<and> trunc R = \<lfloor>R\<rfloor> \<and> trunc E = 172500"
    by (rule exI [of _ R], rule exI [of _ E]) (intro conjI 1 E 2 3 4)
  with s show ?thesis by (rule conjI)
qed

theorem simulate_scenario_metrics_counterexample:
  "price_increase_percentage fifteen_percent_payload = Finite 15 \<and>
   monthly_revenue (baseline_metrics fifteen_percent_payload) = 220000 \<and>
   simulate_scenario local_env fifteen_percent_payload USAGE_STATS =
     (Inr \<lparr>simulated_metrics =
             [(''runway'', 48), (''monthly_burn'', 150000), (''monthly_opex'', 150000),
              (''monthly_profit'', 62999), (''monthly_revenue'', 252999),
              (''monthly_cogs'', 40000)],
           usage_stats =
             JObject [(JStr ''scenarios_simulated'', JInt 1), (JStr ''reports_exported'', JInt 0),
                      (JStr ''ai_price_calculations'', JInt 0)]\<rparr>,
      [(JStr ''scenarios_simulated'', JInt 1), (JStr ''reports_exported'', JInt 0),
       (JStr ''ai_price_calculations'', JInt 0)]) \<and>
   \<lfloor>(220000 :: rat) * (1 + 15 / 100)\<rfloor> = 253000"
proof (intro conjI)
  show "price_increase_percentage fifteen_percent_payload = Finite 15"
    by (simp add: fifteen_percent_payload_def)
  show "monthly_revenue (baseline_metrics fifteen_percent_payload) = 220000"
    by (simp add: fifteen_percent_payload_def default_baseline_def)
  show "\<lfloor>(220000 :: rat) * (1 + 15 / 100)\<rfloor> = 253000"
    by (rule floor_unique) simp_all
qed (rule simulate_fifteen_percent)

end
